theory Spec2Isabelle
  imports Complex_Main "HOL-Library.AList"
begin

section \<open>Python values shared by the services\<close>

text \<open>
  Python floats (and the \<open>Decimal(str(x))\<close> wrappers of the response schemas) are
  modelled as reals. The arithmetic of the reallocation simulator's analysis, whose
  comparisons decide a feasibility band, rounds every result to the nearest double as
  Python does; elsewhere the arithmetic is exact. A dictionary is an association list in
  insertion order, read through \<open>map_of\<close>; a Python dictionary never holds a key
  twice.
\<close>

type_synonym ('k, 'v) dict = "('k \<times> 'v) list"

definition dict_get :: "('k, 'v) dict \<Rightarrow> 'k \<Rightarrow> 'v \<Rightarrow> 'v" where
  \<comment> \<open>\<open>d.get(k, default)\<close>\<close>
  "dict_get d k dflt = (case map_of d k of None \<Rightarrow> dflt | Some v \<Rightarrow> v)"

definition dict_in :: "'k \<Rightarrow> ('k, 'v) dict \<Rightarrow> bool" where
  \<comment> \<open>\<open>k in d\<close>\<close>
  "dict_in k d = (map_of d k \<noteq> None)"

definition or_empty :: "('k, 'v) dict option \<Rightarrow> ('k, 'v) dict" where
  \<comment> \<open>\<open>d or {}\<close>: None and the empty dictionary both give the empty dictionary\<close>
  "or_empty d = (case d of None \<Rightarrow> [] | Some x \<Rightarrow> x)"

definition py_round :: "real \<Rightarrow> int" where
  \<comment> \<open>rounding to the nearest integer, a tie to the even one\<close>
  "py_round x =
     (let f = \<lfloor>x\<rfloor>; r = x - of_int f
      in if r < 1 / 2 then f else if r > 1 / 2 then f + 1 else if even f then f else f + 1)"

definition ulp_exponent :: "real \<Rightarrow> int" where
  \<comment> \<open>the exponent of the last place of the doubles around \<open>x\<close>: 53 significant bits,
      and the fixed spacing \<open>2 ^ -1074\<close> of the subnormal range\<close>
  "ulp_exponent x = max (\<lfloor>log 2 \<bar>x\<bar>\<rfloor> - 52) (- 1074)"

definition double :: "real \<Rightarrow> real" where
  \<comment> \<open>the IEEE 754 binary64 value nearest to \<open>x\<close>, a tie to the even significand: the
      result of a float operation whose exact result is \<open>x\<close>, and the value of a float
      literal. Where Python's result is an infinity (see \<open>no_overflow\<close>) the model has
      the nearest value of an unbounded exponent range instead.\<close>
  "double x =
     (if x = 0 then 0
      else of_int (py_round (x / 2 powi ulp_exponent x)) * 2 powi ulp_exponent x)"

definition is_double :: "real \<Rightarrow> bool" where
  \<comment> \<open>\<open>x\<close> is a value a Python float can hold\<close>
  "is_double x = (double x = x)"

definition no_overflow :: "real \<Rightarrow> bool" where
  \<comment> \<open>the exact result \<open>x\<close> rounds to a finite double: it lies below the largest
      double plus half its last place\<close>
  "no_overflow x = (\<bar>x\<bar> < 2 ^ 1024 - 2 ^ 970)"

text \<open>
  Every exception the modelled functions raise. All but the last two are
  \<open>ValueError\<close>s of the simulators, told apart by their message; the category a
  message quotes is the constructor's argument.
\<close>

datatype error =
    NoBehaviorModel
      \<comment> \<open>"No behavior model found for user"\<close>
  | NoTransactions
      \<comment> \<open>"No transactions found in the specified period"\<close>
  | CannotReduceEssential string
      \<comment> \<open>"Cannot reduce essential category '<category>'. Reallocations should cut
          discretionary spending, not essentials."\<close>
  | CategoryNotFound string
      \<comment> \<open>"Category '<category>' not found in your spending history"\<close>
  | CannotIncreaseDiscretionary string
      \<comment> \<open>"Cannot increase discretionary category '<category>'. Reallocations should
          move money to essentials, savings, or debt payment."\<close>
  | ZeroDivisionError
  | MathDomainError
      \<comment> \<open>the \<open>ValueError\<close> of \<open>math.log1p\<close> at an argument not above -1\<close>

section \<open>The database as the services read it\<close>

type_synonym cat_stats = "(string, real) dict"
  \<comment> \<open>one category's statistics: keys "count", "mean", "std_dev", "min", "max"\<close>

record behaviour_model =
  bm_user_id :: int
  bm_category_stats :: "(string, cat_stats) dict option"
  bm_elasticity :: "(string, real) dict option"
  bm_impulse_score :: real

record transaction =
  tx_user_id :: int
  tx_type :: string
  tx_timestamp :: int \<comment> \<open>microseconds since the epoch\<close>
  tx_amount :: real

record db =
  behaviour_models :: "behaviour_model list"
  transactions :: "transaction list"

definition query_model :: "db \<Rightarrow> int \<Rightarrow> behaviour_model option" where
  \<comment> \<open>\<open>db.query(BehaviourModel).filter_by(user_id=user_id).first()\<close>\<close>
  "query_model d user_id = find (\<lambda>m. bm_user_id m = user_id) (behaviour_models d)"

definition timedelta_days :: "int \<Rightarrow> int" where
  "timedelta_days days = days * 86400000000"

definition query_debits :: "db \<Rightarrow> int \<Rightarrow> int \<Rightarrow> transaction list" where
  \<comment> \<open>the debit transactions of the user at or after the cutoff\<close>
  "query_debits d user_id cutoff_date =
     filter (\<lambda>t. tx_user_id t = user_id \<and> tx_type t = ''debit'' \<and> cutoff_date \<le> tx_timestamp t)
       (transactions d)"

section \<open>Budget reallocation (services/simulations/reallocation.py)\<close>

datatype feasibility = Comfortable | Moderate | Difficult | Unrealistic

datatype impact =
    Allocating real string \<comment> \<open>"Allocating <abs(change)> to <category>"\<close>
  | Note string

datatype warning =
    ReductionDifficult string real real
      \<comment> \<open>"<category>: Reduction of <reduction_pct>% may be difficult (max comfortable:
          <max_reduction_pct>%)"\<close>
  | ReductionExceeds string real
      \<comment> \<open>"<category>: Reduction of <reduction_pct>% exceeds recommended maximum"\<close>
  | IncreaseSubstantial string real
      \<comment> \<open>"<category>: Increase of <change_percent>% is substantial for an essential
          category"\<close>

datatype recommendation =
    Moving real nat nat
      \<comment> \<open>"You're moving <amount> from <n> categories to <m> categories"\<close>
  | ConsiderAdjusting "string list"
      \<comment> \<open>"Consider adjusting <categories> reallocations for better success"\<close>
  | ImpulseFocus
      \<comment> \<open>"Your impulse score suggests focusing on discretionary spending reductions first"\<close>

record category_reallocation =
  cr_category :: string
  cr_current_monthly :: real
  cr_change_amount :: real
  cr_new_monthly :: real
  cr_change_percent :: real
  cr_feasibility :: feasibility
  cr_impact_note :: impact

record visual_data =
  vd_categories :: "string list"
  vd_current :: "real list"
  vd_changes :: "real list"
  vd_new :: "real list"
  vd_feasibility :: "feasibility list"

record reallocation_response =
  rr_baseline_monthly :: real
  rr_projected_monthly :: real
  rr_is_balanced :: bool
  rr_reallocations :: "category_reallocation list"
  rr_feasibility_assessment :: string
  rr_warnings :: "warning list"
  rr_recommendations :: "recommendation list"
  rr_visual_data :: visual_data

definition BENEFICIAL :: "string list" where
  "BENEFICIAL = [''SAVINGS'', ''DEBT_PAYMENT'', ''INVESTMENT'']"

definition sources_of :: "(string, real) dict \<Rightarrow> string list" where
  \<comment> \<open>the categories losing money\<close>
  "sources_of reallocations = map fst (filter (\<lambda>(category, change). change < 0) reallocations)"

definition targets_of :: "(string, real) dict \<Rightarrow> string list" where
  \<comment> \<open>the categories gaining money\<close>
  "targets_of reallocations =
     map fst (filter (\<lambda>(category, change). \<not> change < 0 \<and> change > 0) reallocations)"

fun validate_sources :: "string list \<Rightarrow> (string, cat_stats) dict \<Rightarrow> string list \<Rightarrow> error option" where
  "validate_sources ESSENTIAL_CATEGORIES stats [] = None"
| "validate_sources ESSENTIAL_CATEGORIES stats (category # sources) =
     (if category \<in> set ESSENTIAL_CATEGORIES then Some (CannotReduceEssential category)
      else if \<not> dict_in category stats then Some (CategoryNotFound category)
      else validate_sources ESSENTIAL_CATEGORIES stats sources)"

fun validate_targets :: "string list \<Rightarrow> string list \<Rightarrow> error option" where
  "validate_targets ESSENTIAL_CATEGORIES [] = None"
| "validate_targets ESSENTIAL_CATEGORIES (category # targets) =
     (if category \<notin> set ESSENTIAL_CATEGORIES \<and> category \<notin> set BENEFICIAL
      then Some (CannotIncreaseDiscretionary category)
      else validate_targets ESSENTIAL_CATEGORIES targets)"

fun validate_exist :: "(string, cat_stats) dict \<Rightarrow> string list \<Rightarrow> error option" where
  "validate_exist stats [] = None"
| "validate_exist stats (category # keys) =
     (if \<not> dict_in category stats \<and> category \<notin> set (BENEFICIAL @ [''OTHER''])
      then Some (CategoryNotFound category)
      else validate_exist stats keys)"

definition analyse ::
  "string list \<Rightarrow> (string, cat_stats) dict \<Rightarrow> (string, real) dict \<Rightarrow> string \<times> real
     \<Rightarrow> category_reallocation \<times> warning list" where
  \<comment> \<open>one pass of the loop of lines 92 to 163: the detail appended and the warnings
      appended. Each float operation is the exact one followed by \<open>double\<close>; \<open>abs\<close>,
      the comparisons and the literals 100, 0.5, 1.5, 20, 40, 50 are exact.\<close>
  "analyse ESSENTIAL_CATEGORIES stats elasticity_map entry =
     (let category = fst entry; change = snd entry in
      if category \<in> set [''SAVINGS'', ''OTHER''] \<and> change > 0 then
        (\<lparr>cr_category = category, cr_current_monthly = 0, cr_change_amount = change,
          cr_new_monthly = change, cr_change_percent = 100, cr_feasibility = Comfortable,
          cr_impact_note = Allocating \<bar>change\<bar> category\<rparr>, [])
      else
        let current = dict_get (dict_get stats category []) ''mean'' 0;
            new_amount = double (current + change);
            change_percent =
              (if current > 0 then double (double (change / current) * 100) else 0);
            category_elasticity = dict_get elasticity_map category (double 0.3);
            (feas, note, warns) =
              (if change < 0 then
                 let max_reduction_pct = double (category_elasticity * 100);
                     reduction_pct = \<bar>change_percent\<bar>
                 in if reduction_pct \<le> double (max_reduction_pct * 0.5) then
                      (Comfortable, ''Easily achievable reduction'', [])
                    else if reduction_pct \<le> max_reduction_pct then
                      (Moderate, ''Achievable with some effort'', [])
                    else if reduction_pct \<le> double (max_reduction_pct * 1.5) then
                      (Difficult, ''Challenging - requires significant lifestyle changes'',
                       [ReductionDifficult category reduction_pct max_reduction_pct])
                    else
                      (Unrealistic, ''Likely unrealistic given your spending patterns'',
                       [ReductionExceeds category reduction_pct])
               else if category \<in> set ESSENTIAL_CATEGORIES then
                 (if change_percent \<le> 20 then
                    (Comfortable, ''Reasonable increase for essential category'', [])
                  else if change_percent \<le> 40 then
                    (Moderate, ''Noticeable increase - ensure it's necessary'', [])
                  else
                    (Difficult, ''Large increase for essential spending'',
                     [IncreaseSubstantial category change_percent]))
               else
                 (if change_percent \<le> 50 then
                    (Comfortable, ''Comfortable discretionary increase'', [])
                  else if change_percent \<le> 100 then
                    (Moderate, ''Significant lifestyle upgrade'', [])
                  else
                    (Difficult, ''Major spending increase'', [])))
        in (\<lparr>cr_category = category, cr_current_monthly = current, cr_change_amount = change,
             cr_new_monthly = new_amount, cr_change_percent = change_percent,
             cr_feasibility = feas, cr_impact_note = Note note\<rparr>, warns))"

definition feasibility_scores :: "feasibility \<Rightarrow> real" where
  "feasibility_scores f =
     (case f of Comfortable \<Rightarrow> 0 | Moderate \<Rightarrow> 1 | Difficult \<Rightarrow> 2 | Unrealistic \<Rightarrow> 3)"

definition overall_assessment :: "real \<Rightarrow> string" where
  "overall_assessment avg_difficulty =
     (if avg_difficulty \<le> 0.5 then ''This reallocation is comfortable and achievable''
      else if avg_difficulty \<le> 1.5 then
        ''This reallocation is moderately challenging but achievable''
      else if avg_difficulty \<le> 2.5 then
        ''This reallocation will be difficult and requires strong commitment''
      else ''This reallocation may be unrealistic - consider a more moderate approach'')"

definition recommend :: "behaviour_model \<Rightarrow> category_reallocation list \<Rightarrow> recommendation list" where
  "recommend model reallocation_details =
     (let increases = filter (\<lambda>r. cr_change_amount r > 0) reallocation_details;
          decreases = filter (\<lambda>r. cr_change_amount r < 0) reallocation_details;
          difficult_ones =
            filter (\<lambda>r. cr_feasibility r \<in> set [Difficult, Unrealistic]) reallocation_details
      in (if increases \<noteq> [] \<and> decreases \<noteq> []
          then [Moving (sum_list (map (\<lambda>r. \<bar>cr_change_amount r\<bar>) decreases))
                  (length decreases) (length increases)]
          else [])
         @ (if difficult_ones \<noteq> [] then [ConsiderAdjusting (map cr_category (take 2 difficult_ones))]
            else [])
         @ (if bm_impulse_score model > 0.6 then [ImpulseFocus] else []))"

definition simulate_reallocation ::
  "string list \<Rightarrow> db \<Rightarrow> int \<Rightarrow> (string, real) dict \<Rightarrow> int \<Rightarrow> int
     \<Rightarrow> error + reallocation_response" where
  \<comment> \<open>\<open>ESSENTIAL_CATEGORIES\<close> is the constant of app.utils.constants; \<open>utcnow\<close> is the
      reading of \<open>datetime.utcnow()\<close>\<close>
  "simulate_reallocation ESSENTIAL_CATEGORIES d user_id reallocations time_period_days utcnow =
     (case query_model d user_id of
        None \<Rightarrow> Inl NoBehaviorModel
      | Some model \<Rightarrow>
          let cutoff_date = utcnow - timedelta_days time_period_days;
              txs = query_debits d user_id cutoff_date
          in if txs = [] then Inl NoTransactions
             else
               let baseline_total = sum_list (map tx_amount txs);
                   stats = or_empty (bm_category_stats model);
                   elasticity_map = or_empty (bm_elasticity model)
               in (case validate_sources ESSENTIAL_CATEGORIES stats (sources_of reallocations) of
                    Some e \<Rightarrow> Inl e
                  | None \<Rightarrow>
                 (case validate_targets ESSENTIAL_CATEGORIES (targets_of reallocations) of
                    Some e \<Rightarrow> Inl e
                  | None \<Rightarrow>
                 (case validate_exist stats (map fst reallocations) of
                    Some e \<Rightarrow> Inl e
                  | None \<Rightarrow>
                    let analysed = map (analyse ESSENTIAL_CATEGORIES stats elasticity_map) reallocations;
                        reallocation_details = map fst analysed;
                        warnings = concat (map snd analysed)
                    in if length reallocation_details = 0 then Inl ZeroDivisionError
                       else
                         let avg_difficulty =
                               sum_list (map (\<lambda>r. feasibility_scores (cr_feasibility r))
                                 reallocation_details)
                               / real (length reallocation_details)
                         in Inr \<lparr>rr_baseline_monthly = baseline_total,
                                 rr_projected_monthly = baseline_total,
                                 rr_is_balanced = True,
                                 rr_reallocations = reallocation_details,
                                 rr_feasibility_assessment = overall_assessment avg_difficulty,
                                 rr_warnings = warnings,
                                 rr_recommendations = recommend model reallocation_details,
                                 rr_visual_data =
                                   \<lparr>vd_categories = map cr_category reallocation_details,
                                    vd_current = map cr_current_monthly reallocation_details,
                                    vd_changes = map cr_change_amount reallocation_details,
                                    vd_new = map cr_new_monthly reallocation_details,
                                    vd_feasibility = map cr_feasibility reallocation_details\<rparr>\<rparr>))))"

section \<open>Spending projection (services/simulations/projection.py)\<close>

text \<open>
  Python's process-wide generator is an explicit state \<open>'g\<close>: \<open>rng_seed n\<close> is the
  state \<open>random.seed(n)\<close> leaves, \<open>rng_random\<close> is one call of \<open>random.random()\<close>,
  which returns a float in \<open>[0, 1)\<close> and the next state. The generator belongs to the
  standard library, so it is a parameter of the model.
\<close>

record 'g rng =
  rng_seed :: "int \<Rightarrow> 'g"
  rng_random :: "'g \<Rightarrow> real \<times> 'g"

definition uniform :: "'g rng \<Rightarrow> real \<Rightarrow> real \<Rightarrow> 'g \<Rightarrow> real \<times> 'g" where
  \<comment> \<open>\<open>random.uniform(a, b)\<close> is \<open>a + (b - a) * random()\<close>\<close>
  "uniform R a b g = (let (u, g') = rng_random R g in (a + (b - a) * u, g'))"

definition round2 :: "real \<Rightarrow> real" where
  \<comment> \<open>\<open>round(x, 2)\<close>\<close>
  "round2 x = of_int (py_round (x * 100)) / 100"

record datetime =
  dt_year :: int
  dt_month :: int

definition month_name :: "string list" where
  "month_name = [[], ''January'', ''February'', ''March'', ''April'', ''May'', ''June'', ''July'',
     ''August'', ''September'', ''October'', ''November'', ''December'']"

datatype insight =
    TotalProjected int real
      \<comment> \<open>"Total projected spending over <projection_months> months: <total_projected>"\<close>
  | Expected string real
      \<comment> \<open>"Expected <change_word>: <abs(total_change)> compared to baseline"\<close>
  | LargestReduction string real
      \<comment> \<open>"Largest planned reduction: <category> (<pct>%)"\<close>
  | LargestIncrease string real
      \<comment> \<open>"Largest planned increase: <category> (<pct>%)"\<close>
  | ConfidenceDecreases string
      \<comment> \<open>"Confidence decreases over time - <confidence_level, in lower case> confidence
          for this time horizon"\<close>

record monthly_projection =
  mp_month :: int
  mp_month_label :: "string \<times> int" \<comment> \<open>the month's name and the year, printed "<name> <year>"\<close>
  mp_projected_spending :: real
  mp_category_breakdown :: "(string, real) dict"
  mp_cumulative_change :: real
  mp_confidence :: real

record projection_chart =
  pc_months :: "(string \<times> int) list"
  pc_projected :: "real list"
  pc_baseline :: "real list"
  pc_cumulative_change :: "real list"
  pc_confidence :: "real list"

record projection_response =
  pr_baseline_monthly :: real
  pr_projection_months :: int
  pr_monthly_projections :: "monthly_projection list"
  pr_total_projected :: real
  pr_total_baseline :: real
  pr_cumulative_change :: real
  pr_annual_impact :: real
  pr_trend_analysis :: string
  pr_confidence_level :: string
  pr_key_insights :: "insight list"
  pr_projection_chart :: projection_chart

definition project_category ::
  "'g rng \<Rightarrow> int \<Rightarrow> (string, real) dict \<Rightarrow> string \<times> cat_stats \<Rightarrow> real \<times> 'g" where
  \<comment> \<open>lines 77 to 86: \<open>projected_amount\<close> and the generator's state after the draw\<close>
  "project_category R month_num changes item =
     (let category = fst item; cat_stats = snd item;
          base_amount = dict_get cat_stats ''mean'' 0;
          change_pct = dict_get changes category 0;
          adjusted_amount = base_amount * (1 + change_pct / 100);
          (variation, g') = uniform R (- 0.05) 0.05 (rng_seed R month_num);
          projected_amount = adjusted_amount * (1 + variation)
      in (projected_amount, g'))"

fun project_categories ::
  "'g rng \<Rightarrow> int \<Rightarrow> (string, real) dict \<Rightarrow> (string \<times> cat_stats) list
     \<Rightarrow> (string, real) dict \<times> real \<times> 'g \<Rightarrow> (string, real) dict \<times> real \<times> 'g" where
  \<comment> \<open>the loop of lines 76 to 89 over \<open>stats.items()\<close>, on
      \<open>(category_spending, month_total, generator)\<close>\<close>
  "project_categories R month_num changes [] acc = acc"
| "project_categories R month_num changes (item # items) (category_spending, month_total, g) =
     (let (projected_amount, g') = project_category R month_num changes item
      in project_categories R month_num changes items
           (AList.update (fst item) (round2 projected_amount) category_spending,
            month_total + projected_amount, g'))"

definition project_month ::
  "'g rng \<Rightarrow> (string, cat_stats) dict \<Rightarrow> (string, real) dict \<Rightarrow> real \<Rightarrow> datetime \<Rightarrow> int
     \<Rightarrow> real \<times> 'g \<Rightarrow> monthly_projection \<times> real \<times> 'g" where
  \<comment> \<open>one pass of the loop of lines 67 to 104, on \<open>(cumulative_change, generator)\<close>\<close>
  "project_month R stats changes baseline_monthly current_date month_num st =
     (let target_month = (dt_month current_date + month_num - 1) mod 12 + 1;
          month_label = (month_name ! nat target_month,
                         dt_year current_date + (dt_month current_date + month_num - 1) div 12);
          (category_spending, month_total, g') =
            project_categories R month_num changes stats ([], 0, snd st);
          confidence = max 0.5 (1.0 - of_int month_num * 0.03);
          month_change = month_total - baseline_monthly;
          cumulative_change = fst st + month_change
      in (\<lparr>mp_month = month_num, mp_month_label = month_label,
           mp_projected_spending = round2 month_total,
           mp_category_breakdown = category_spending,
           mp_cumulative_change = round2 cumulative_change,
           mp_confidence = confidence\<rparr>, cumulative_change, g'))"

fun project_months ::
  "'g rng \<Rightarrow> (string, cat_stats) dict \<Rightarrow> (string, real) dict \<Rightarrow> real \<Rightarrow> datetime \<Rightarrow> int list
     \<Rightarrow> monthly_projection list \<times> real \<times> 'g \<Rightarrow> monthly_projection list \<times> real \<times> 'g" where
  "project_months R stats changes baseline_monthly current_date [] acc = acc"
| "project_months R stats changes baseline_monthly current_date (month_num # rest)
     (monthly_projections, cumulative_change, g) =
     (let (m, cumulative_change', g') =
            project_month R stats changes baseline_monthly current_date month_num
              (cumulative_change, g)
      in project_months R stats changes baseline_monthly current_date rest
           (monthly_projections @ [m], cumulative_change', g'))"

fun min_by_value :: "string \<times> real \<Rightarrow> (string \<times> real) list \<Rightarrow> string \<times> real" where
  \<comment> \<open>\<open>min(items, key=lambda x: x[1])\<close>: the first item of least value\<close>
  "min_by_value best [] = best"
| "min_by_value best (x # xs) = min_by_value (if snd x < snd best then x else best) xs"

fun max_by_value :: "string \<times> real \<Rightarrow> (string \<times> real) list \<Rightarrow> string \<times> real" where
  \<comment> \<open>\<open>max(items, key=lambda x: x[1])\<close>: the first item of greatest value\<close>
  "max_by_value best [] = best"
| "max_by_value best (x # xs) = max_by_value (if snd x > snd best then x else best) xs"

definition trend_of :: "(string, real) dict \<Rightarrow> string" where
  "trend_of changes =
     (if length changes > 0 then
        let avg_change = sum_list (map snd changes) / real (length changes)
        in if avg_change < - 5 then ''Decreasing trend with planned reductions''
           else if avg_change > 5 then ''Increasing trend with planned expansions''
           else ''Stable spending with minor adjustments''
      else ''Stable baseline projection with natural variations'')"

definition confidence_level_of :: "int \<Rightarrow> string" where
  "confidence_level_of projection_months =
     (if projection_months \<le> 3 then ''High''
      else if projection_months \<le> 6 then ''Moderate''
      else if projection_months \<le> 12 then ''Low''
      else ''Very Low'')"

definition key_insights ::
  "int \<Rightarrow> real \<Rightarrow> real \<Rightarrow> (string, real) dict \<Rightarrow> string \<Rightarrow> insight list" where
  "key_insights projection_months total_projected total_change changes confidence_level =
     [TotalProjected projection_months total_projected]
     @ (if total_change \<noteq> 0
        then [Expected (if total_change < 0 then ''savings'' else ''increase'') \<bar>total_change\<bar>]
        else [])
     @ (case changes of
          [] \<Rightarrow> []
        | c # cs \<Rightarrow>
            (let most_reduced = min_by_value c cs; most_increased = max_by_value c cs
             in (if snd most_reduced < 0
                 then [LargestReduction (fst most_reduced) (snd most_reduced)] else [])
                @ (if snd most_increased > 0
                   then [LargestIncrease (fst most_increased) (snd most_increased)] else [])))
     @ [ConfidenceDecreases confidence_level]"

definition project_future_spending ::
  "'g rng \<Rightarrow> db \<Rightarrow> int \<Rightarrow> int \<Rightarrow> int \<Rightarrow> (string, real) dict option \<Rightarrow> string option
     \<Rightarrow> int \<Rightarrow> datetime \<Rightarrow> 'g \<Rightarrow> (error + projection_response) \<times> 'g" where
  \<comment> \<open>\<open>utcnow\<close> is the first reading of the clock (a timestamp), \<open>current_date\<close> the
      second (its year and month); the result comes with the generator's final state\<close>
  "project_future_spending R d user_id projection_months time_period_days behavioral_changes
       scenario_id utcnow current_date g =
     (case query_model d user_id of
        None \<Rightarrow> (Inl NoBehaviorModel, g)
      | Some model \<Rightarrow>
          let cutoff_date = utcnow - timedelta_days time_period_days;
              txs = query_debits d user_id cutoff_date
          in if txs = [] then (Inl NoTransactions, g)
             else
               let baseline_monthly = sum_list (map tx_amount txs);
                   stats = or_empty (bm_category_stats model);
                   changes = or_empty behavioral_changes;
                   (monthly_projections, cumulative_change, g') =
                     project_months R stats changes baseline_monthly current_date
                       [1 .. projection_months] ([], 0, g);
                   total_projected = sum_list (map mp_projected_spending monthly_projections);
                   total_baseline = baseline_monthly * of_int projection_months;
                   total_change = total_projected - total_baseline
               in if projection_months = 0 then (Inl ZeroDivisionError, g')
                  else
                    let annual_impact = (total_change / of_int projection_months) * 12;
                        trend = trend_of changes;
                        confidence_level = confidence_level_of projection_months;
                        insights = key_insights projection_months total_projected total_change
                                     changes confidence_level
                    in (Inr \<lparr>pr_baseline_monthly = baseline_monthly,
                             pr_projection_months = projection_months,
                             pr_monthly_projections = monthly_projections,
                             pr_total_projected = round2 total_projected,
                             pr_total_baseline = round2 total_baseline,
                             pr_cumulative_change = round2 total_change,
                             pr_annual_impact = round2 annual_impact,
                             pr_trend_analysis = trend,
                             pr_confidence_level = confidence_level,
                             pr_key_insights = insights,
                             pr_projection_chart =
                               \<lparr>pc_months = map mp_month_label monthly_projections,
                                pc_projected = map mp_projected_spending monthly_projections,
                                pc_baseline = replicate (nat projection_months) baseline_monthly,
                                pc_cumulative_change =
                                  map mp_cumulative_change monthly_projections,
                                pc_confidence = map mp_confidence monthly_projections\<rparr>\<rparr>, g'))"

section \<open>Category reliability (utils/category_utils.py)\<close>

definition log1p :: "real \<Rightarrow> error + real" where
  \<comment> \<open>\<open>math.log1p\<close> raises at an argument not above -1\<close>
  "log1p x = (if x \<le> - 1 then Inl MathDomainError else Inr (ln (1 + x)))"

definition get_category_reliability_score :: "behaviour_model option \<Rightarrow> string \<Rightarrow> error + real" where
  "get_category_reliability_score model category =
     (case model of
        None \<Rightarrow> Inr 0
      | Some m \<Rightarrow>
          if or_empty (bm_category_stats m) = [] \<or> \<not> dict_in category (or_empty (bm_category_stats m))
          then Inr 0
          else
            let stats = dict_get (or_empty (bm_category_stats m)) category [];
                count = dict_get stats ''count'' 0;
                mean = dict_get stats ''mean'' 0;
                std_dev = dict_get stats ''std_dev'' 0
            in (case log1p count of
                  Inl e \<Rightarrow> Inl e
                | Inr l \<Rightarrow>
                (case log1p 20 of
                  Inl e \<Rightarrow> Inl e
                | Inr l20 \<Rightarrow>
                    let count_score = min 1.0 (l / l20);
                        consistency_score =
                          (if mean > 0 then let cv = std_dev / mean in max 0.0 (1.0 - min 1.0 cv)
                           else 0.5);
                        reliability = 0.7 * count_score + 0.3 * consistency_score
                    in Inr reliability)))"

section \<open>The specification's wording and auxiliary notions\<close>

definition spec_reduction_band :: "real \<Rightarrow> real \<Rightarrow> feasibility" where
  \<comment> \<open>the four bands as the specification words them: at most 50%, 100%, 150% of the
      ceiling, and above; the two products are floats, so each is the nearest double\<close>
  "spec_reduction_band reduction_pct ceiling_pct =
     (if reduction_pct \<le> double (50 / 100 * ceiling_pct) then Comfortable
      else if reduction_pct \<le> ceiling_pct then Moderate
      else if reduction_pct \<le> double (150 / 100 * ceiling_pct) then Difficult
      else Unrealistic)"

definition reduction_in_range :: "real \<Rightarrow> real \<Rightarrow> real \<Rightarrow> bool" where
  \<comment> \<open>the delta, the current mean and the elasticity are doubles, and none of the
      four products and quotients of lines 108 to 123 overflows\<close>
  "reduction_in_range change current category_elasticity =
     (is_double change \<and> is_double current \<and> is_double category_elasticity
      \<and> no_overflow (change / current)
      \<and> no_overflow (double (change / current) * 100)
      \<and> no_overflow (category_elasticity * 100)
      \<and> no_overflow (double (category_elasticity * 100) * 1.5))"

definition spec_projected_amount :: "real \<Rightarrow> real \<Rightarrow> real \<Rightarrow> real" where
  \<comment> \<open>the projected amount as the specification words it\<close>
  "spec_projected_amount base change_pct v = base * (1 + change_pct / 100) * (1 + v)"

definition source_rejected :: "string list \<Rightarrow> (string, cat_stats) dict \<Rightarrow> string \<Rightarrow> bool" where
  \<comment> \<open>the two conditions under which the loop of lines 66 to 73 raises\<close>
  "source_rejected ESSENTIAL_CATEGORIES stats category =
     (category \<in> set ESSENTIAL_CATEGORIES \<or> \<not> dict_in category stats)"

definition source_error :: "string list \<Rightarrow> string \<Rightarrow> error" where
  \<comment> \<open>what it raises for a rejected source\<close>
  "source_error ESSENTIAL_CATEGORIES category =
     (if category \<in> set ESSENTIAL_CATEGORIES then CannotReduceEssential category
      else CategoryNotFound category)"

definition target_rejected :: "string list \<Rightarrow> string \<Rightarrow> bool" where
  \<comment> \<open>the condition under which the loop of lines 76 to 81 raises\<close>
  "target_rejected ESSENTIAL_CATEGORIES category =
     (category \<notin> set ESSENTIAL_CATEGORIES \<and> category \<notin> set BENEFICIAL)"

definition variation :: "'g rng \<Rightarrow> int \<Rightarrow> real" where
  \<comment> \<open>the perturbation of a month: the draw that follows \<open>random.seed(month_num)\<close>\<close>
  "variation R month_num = fst (uniform R (- 0.05) 0.05 (rng_seed R month_num))"

definition base_means :: "(string, cat_stats) dict \<Rightarrow> (string \<times> real) list" where
  \<comment> \<open>the baseline mean of every category, as the loop of lines 76 and 77 reads it\<close>
  "base_means stats = map (\<lambda>item. (fst item, dict_get (snd item) ''mean'' 0)) stats"

definition mean_amount :: "'g rng \<Rightarrow> int \<Rightarrow> (string, real) dict \<Rightarrow> string \<times> real \<Rightarrow> real" where
  \<comment> \<open>the amount projected in a month for a category of the given baseline mean\<close>
  "mean_amount R month_num changes p =
     spec_projected_amount (snd p) (dict_get changes (fst p) 0) (variation R month_num)"

definition count_score :: "real \<Rightarrow> real" where
  \<comment> \<open>line 64, where \<open>log1p\<close> does not raise\<close>
  "count_score count = min 1 (ln (1 + count) / ln 21)"

definition consistency_score :: "real \<Rightarrow> real \<Rightarrow> real" where
  \<comment> \<open>lines 68 to 72\<close>
  "consistency_score mean std_dev =
     (if mean > 0 then max 0 (1 - min 1 (std_dev / mean)) else 0.5)"

section \<open>Example data\<close>

definition demo_essential :: "string list" where
  "demo_essential = [''GROCERIES'', ''RENT'', ''UTILITIES'']"

definition demo_model :: behaviour_model where
  "demo_model =
     \<lparr>bm_user_id = 1,
      bm_category_stats = Some
        [(''ENTERTAINMENT'', [(''count'', 12), (''mean'', 100), (''std_dev'', 40)]),
         (''GROCERIES'', [(''count'', 20), (''mean'', 400), (''std_dev'', 20)]),
         (''GIFTS'', [(''count'', 2), (''mean'', 0), (''std_dev'', 0)])],
      bm_elasticity = Some [(''ENTERTAINMENT'', 0.4), (''GROCERIES'', 0.2)],
      bm_impulse_score = 0.5\<rparr>"

definition demo_db :: db where
  "demo_db =
     \<lparr>behaviour_models = [demo_model],
      transactions =
        [\<lparr>tx_user_id = 1, tx_type = ''debit'', tx_timestamp = 5000000000000, tx_amount = 250\<rparr>,
         \<lparr>tx_user_id = 1, tx_type = ''credit'', tx_timestamp = 5000000000000, tx_amount = 900\<rparr>,
         \<lparr>tx_user_id = 2, tx_type = ''debit'', tx_timestamp = 5000000000000, tx_amount = 70\<rparr>]\<rparr>"

definition boundary_model :: behaviour_model where
  \<comment> \<open>the elasticities are the doubles nearest to 0.4 and to 0.58\<close>
  "boundary_model =
     \<lparr>bm_user_id = 3,
      bm_category_stats = Some
        [(''ENTERTAINMENT'', [(''count'', 12), (''mean'', 100), (''std_dev'', 40)]),
         (''DINING'', [(''count'', 9), (''mean'', 100), (''std_dev'', 58)])],
      bm_elasticity = Some
        [(''ENTERTAINMENT'', 3602879701896397 / 9007199254740992),
         (''DINING'', 5224175567749775 / 9007199254740992)],
      bm_impulse_score = 0.5\<rparr>"

definition boundary_db :: db where
  "boundary_db =
     \<lparr>behaviour_models = [boundary_model],
      transactions =
        [\<lparr>tx_user_id = 3, tx_type = ''debit'', tx_timestamp = 5000000000000, tx_amount = 200\<rparr>]\<rparr>"

definition stale_db :: db where
  \<comment> \<open>the only transaction is older than any recent window\<close>
  "stale_db =
     \<lparr>behaviour_models = [demo_model],
      transactions =
        [\<lparr>tx_user_id = 1, tx_type = ''debit'', tx_timestamp = 0, tx_amount = 250\<rparr>]\<rparr>"

definition idle_db :: db where
  \<comment> \<open>a user with a behaviour model and no transaction at all\<close>
  "idle_db = \<lparr>behaviour_models = [demo_model], transactions = []\<rparr>"

definition saturation_model :: behaviour_model where
  \<comment> \<open>the two categories of the test on the saturation point\<close>
  "saturation_model =
     \<lparr>bm_user_id = 7,
      bm_category_stats = Some
        [(''AT_SATURATION'', [(''count'', 20), (''mean'', 100), (''std_dev'', 0)]),
         (''BEYOND_SATURATION'', [(''count'', 100), (''mean'', 100), (''std_dev'', 0)])],
      bm_elasticity = None,
      bm_impulse_score = 0\<rparr>"

definition demo_rng :: "int rng" where
  \<comment> \<open>a linear congruential generator standing for the standard library's\<close>
  "demo_rng =
     \<lparr>rng_seed = (\<lambda>n. n mod 2147483648),
      rng_random = (\<lambda>g. let g' = (1103515245 * g + 12345) mod 2147483648
                         in (of_int g' / 2147483648, g'))\<rparr>"

section \<open>Rounding to doubles\<close>

lemma ulp_exponent_eq:
  assumes "2 powi k \<le> \<bar>x\<bar>" and "\<bar>x\<bar> < 2 powi (k + 1)" and "- 1022 \<le> k"
  shows "ulp_exponent x = k - 52"
proof -
  have "(0::real) < 2 powi k" by simp
  then have pos: "0 < \<bar>x\<bar>" using assms(1) by linarith
  have conv: "(2::real) powr (of_int j) = 2 powi j" for j
    by (simp add: powr_real_of_int')
  have "2 powr (of_int k) \<le> \<bar>x\<bar>" using assms(1) by (simp only: conv)
  moreover have "\<bar>x\<bar> < 2 powr (of_int k + 1)"
    using assms(2) conv[of "k + 1"] by simp
  ultimately have "\<lfloor>log 2 \<bar>x\<bar>\<rfloor> = k"
    using floor_log_eq_powr_iff[of "\<bar>x\<bar>" 2 k] pos by simp
  then show ?thesis using assms(3) by (simp add: ulp_exponent_def)
qed

text \<open>A normal \<open>x\<close> with \<open>2 ^ k \<le> |x| < 2 ^ (k + 1)\<close> is rounded to a multiple of \<open>2 ^ (k - 52)\<close>.\<close>

lemma double_eval:
  assumes "2 powi k \<le> \<bar>x\<bar>" and "\<bar>x\<bar> < 2 powi (k + 1)" and "- 1022 \<le> k"
  shows "double x = of_int (py_round (x / 2 powi (k - 52))) * 2 powi (k - 52)"
proof -
  have "(0::real) < 2 powi k" by simp
  then have "0 < \<bar>x\<bar>" using assms(1) by linarith
  then have "x \<noteq> 0" by auto
  then show ?thesis using ulp_exponent_eq[OF assms] by (simp add: double_def)
qed

lemma double_20: "double 20 = 20"
  using double_eval[of 4 20] by (simp add: py_round_def Let_def)

lemma double_40: "double 40 = 40"
  using double_eval[of 5 40] by (simp add: py_round_def Let_def)

lemma double_60: "double 60 = 60" and double_minus_60: "double (- 60) = - 60"
  using double_eval[of 5 60] double_eval[of 5 "- 60"] by (simp_all add: py_round_def Let_def)

lemma double_87: "double 87 = 87" and double_minus_87: "double (- 87) = - 87"
  using double_eval[of 6 87] double_eval[of 6 "- 87"] by (simp_all add: py_round_def Let_def)

lemma double_100: "double 100 = 100"
  using double_eval[of 6 100] by (simp add: py_round_def Let_def)

text \<open>The literals 0.4 and 0.58, and the quotients and products of the two examples.\<close>

lemma double_0_4: "double (3602879701896397 / 9007199254740992) = 3602879701896397 / 9007199254740992"
  using double_eval[of "- 2" "3602879701896397 / 9007199254740992"]
  by (simp add: py_round_def Let_def)

lemma double_literal_0_4: "double 0.4 = 3602879701896397 / 9007199254740992"
  using double_eval[of "- 2" "0.4"] by (simp add: py_round_def Let_def)

lemma double_0_58: "double (5224175567749775 / 9007199254740992) = 5224175567749775 / 9007199254740992"
  using double_eval[of "- 1" "5224175567749775 / 9007199254740992"]
  by (simp add: py_round_def Let_def)

lemma double_60_over_100: "double (- 60 / 100) = - 5404319552844595 / 9007199254740992"
  using double_eval[of "- 1" "- 60 / 100"] by (simp add: py_round_def Let_def)

lemma double_60_percent: "double (- 5404319552844595 / 9007199254740992 * 100) = - 60"
  using double_eval[of 5 "- 5404319552844595 / 9007199254740992 * 100"]
  by (simp add: py_round_def Let_def)

lemma double_87_over_100: "double (- 87 / 100) = - 7836263351624663 / 9007199254740992"
  using double_eval[of "- 1" "- 87 / 100"] by (simp add: py_round_def Let_def)

lemma double_87_percent: "double (- 7836263351624663 / 9007199254740992 * 100) = - 87"
  using double_eval[of 6 "- 7836263351624663 / 9007199254740992 * 100"]
  by (simp add: py_round_def Let_def)

lemma double_ceiling_40: "double (3602879701896397 / 9007199254740992 * 100) = 40"
  using double_eval[of 5 "3602879701896397 / 9007199254740992 * 100"]
  by (simp add: py_round_def Let_def)

lemma double_ceiling_58:
  "double (5224175567749775 / 9007199254740992 * 100) = 8162774324609023 / 140737488355328"
  using double_eval[of 5 "5224175567749775 / 9007199254740992 * 100"]
  by (simp add: py_round_def Let_def)

lemma double_half_ceiling_58:
  "double (50 / 100 * (8162774324609023 / 140737488355328)) = 8162774324609023 / 281474976710656"
  using double_eval[of 4 "50 / 100 * (8162774324609023 / 140737488355328)"]
  by (simp add: py_round_def Let_def)

lemma double_three_halves_ceiling_58:
  "double (150 / 100 * (8162774324609023 / 140737488355328)) = 6122080743456767 / 70368744177664"
  using double_eval[of 6 "150 / 100 * (8162774324609023 / 140737488355328)"]
  by (simp add: py_round_def Let_def)

section \<open>Facts about the example database\<close>

lemma demo_query_model: "query_model demo_db 1 = Some demo_model"
  by (simp add: query_model_def demo_db_def demo_model_def)

lemma demo_query_debits:
  "query_debits demo_db 1 (5000000000000 - timedelta_days 30)
     = [\<lparr>tx_user_id = 1, tx_type = ''debit'', tx_timestamp = 5000000000000, tx_amount = 250\<rparr>]"
  by (simp add: query_debits_def demo_db_def timedelta_days_def)

lemma demo_debits_ne: "query_debits demo_db 1 (5000000000000 - timedelta_days 30) \<noteq> []"
  by (simp add: demo_query_debits)

lemma demo_stats:
  "or_empty (bm_category_stats demo_model) =
     [(''ENTERTAINMENT'', [(''count'', 12), (''mean'', 100), (''std_dev'', 40)]),
      (''GROCERIES'', [(''count'', 20), (''mean'', 400), (''std_dev'', 20)]),
      (''GIFTS'', [(''count'', 2), (''mean'', 0), (''std_dev'', 0)])]"
  by (simp add: demo_model_def or_empty_def)

lemma demo_elasticity:
  "or_empty (bm_elasticity demo_model) = [(''ENTERTAINMENT'', 0.4), (''GROCERIES'', 0.2)]"
  by (simp add: demo_model_def or_empty_def)

lemma saturation_stats:
  "or_empty (bm_category_stats saturation_model) =
        [(''AT_SATURATION'', [(''count'', 20), (''mean'', 100), (''std_dev'', 0)]),
         (''BEYOND_SATURATION'', [(''count'', 100), (''mean'', 100), (''std_dev'', 0)])]"
  by (simp add: saturation_model_def or_empty_def)

lemma demo_rng_draw:
  "fst (rng_random demo_rng (rng_seed demo_rng 2)) = 59559187 / 2147483648"
  by (simp add: demo_rng_def Let_def)

section \<open>The reallocation simulator\<close>

subsection \<open>Validation and the response\<close>

lemma validate_sources_find:
  "validate_sources E stats cs = map_option (source_error E) (find (source_rejected E stats) cs)"
  by (induction cs) (auto simp: source_rejected_def source_error_def)

lemma validate_targets_find:
  "validate_targets E cs = map_option CannotIncreaseDiscretionary (find (target_rejected E) cs)"
  by (induction cs) (auto simp: target_rejected_def)

lemma find_exists: "x \<in> set xs \<Longrightarrow> P x \<Longrightarrow> \<exists>y. find P xs = Some y"
  by (induction xs) auto

lemma simulate_reallocation_rejects_source:
  assumes "query_model d uid = Some m"
    and "query_debits d uid (now - timedelta_days days) \<noteq> []"
    and "find (source_rejected E (or_empty (bm_category_stats m))) (sources_of req) = Some c"
  shows "simulate_reallocation E d uid req days now = Inl (source_error E c)"
  using assms by (simp add: simulate_reallocation_def Let_def validate_sources_find)

lemma simulate_reallocation_rejects_target:
  assumes "query_model d uid = Some m"
    and "query_debits d uid (now - timedelta_days days) \<noteq> []"
    and "find (source_rejected E (or_empty (bm_category_stats m))) (sources_of req) = None"
    and "find (target_rejected E) (targets_of req) = Some c"
  shows "simulate_reallocation E d uid req days now = Inl (CannotIncreaseDiscretionary c)"
  using assms
  by (simp add: simulate_reallocation_def Let_def validate_sources_find validate_targets_find)

lemma simulate_reallocation_returns:
  assumes "query_model d uid = Some m"
    and "query_debits d uid (now - timedelta_days days) \<noteq> []"
    and "validate_sources E (or_empty (bm_category_stats m)) (sources_of req) = None"
    and "validate_targets E (targets_of req) = None"
    and "validate_exist (or_empty (bm_category_stats m)) (map fst req) = None"
    and "req \<noteq> []"
  shows "\<exists>resp. simulate_reallocation E d uid req days now = Inr resp
     \<and> rr_baseline_monthly resp
         = sum_list (map tx_amount (query_debits d uid (now - timedelta_days days)))
     \<and> rr_projected_monthly resp = rr_baseline_monthly resp
     \<and> rr_is_balanced resp
     \<and> rr_reallocations resp
         = map (\<lambda>x. fst (analyse E (or_empty (bm_category_stats m))
                          (or_empty (bm_elasticity m)) x)) req
     \<and> rr_warnings resp
         = concat (map (\<lambda>x. snd (analyse E (or_empty (bm_category_stats m))
                                  (or_empty (bm_elasticity m)) x)) req)"
  using assms by (simp add: simulate_reallocation_def Let_def comp_def)

lemma analyse_reduction:
  assumes "change < 0" and "0 < dict_get (dict_get stats c []) ''mean'' 0"
  shows "cr_feasibility (fst (analyse E stats el (c, change)))
           = spec_reduction_band
               \<bar>double (double (change / dict_get (dict_get stats c []) ''mean'' 0) * 100)\<bar>
               (double (dict_get el c (double 0.3) * 100))"
    and "cr_category (fst (analyse E stats el (c, change))) = c"
    and "cr_change_percent (fst (analyse E stats el (c, change)))
           = double (double (change / dict_get (dict_get stats c []) ''mean'' 0) * 100)"
    and "snd (analyse E stats el (c, change)) =
          (let reduction_pct =
                 \<bar>double (double (change / dict_get (dict_get stats c []) ''mean'' 0) * 100)\<bar>;
               max_reduction_pct = double (dict_get el c (double 0.3) * 100)
           in case spec_reduction_band reduction_pct max_reduction_pct of
                Difficult \<Rightarrow> [ReductionDifficult c reduction_pct max_reduction_pct]
              | Unrealistic \<Rightarrow> [ReductionExceeds c reduction_pct]
              | _ \<Rightarrow> [])"
  using assms by (simp_all add: analyse_def Let_def spec_reduction_band_def mult.commute)

lemma analyse_zero_mean:
  assumes "\<not> (c \<in> set [''SAVINGS'', ''OTHER''] \<and> 0 < change)"
    and "dict_get (dict_get stats c []) ''mean'' 0 \<le> 0"
  shows "cr_change_percent (fst (analyse E stats el (c, change))) = 0"
  using assms by (auto simp add: analyse_def Let_def split: prod.splits)

lemma simulate_reallocation_response:
  assumes "simulate_reallocation E d uid req days now = Inr resp"
  shows "rr_projected_monthly resp = rr_baseline_monthly resp" and "rr_is_balanced resp"
  using assms
  by (auto simp: simulate_reallocation_def Let_def split: option.splits if_splits)

text \<open>
  The average of line 167 divides by the number of details: a request without any delta
  passes validation and raises there.
\<close>

lemma simulate_reallocation_empty_request:
  assumes "query_model d uid = Some m"
    and "query_debits d uid (now - timedelta_days days) \<noteq> []"
  shows "simulate_reallocation E d uid [] days now = Inl ZeroDivisionError"
  using assms by (simp add: simulate_reallocation_def Let_def sources_of_def targets_of_def)

subsection \<open>Feasibility of a reduction\<close>

text \<open>
  Claim C1. In a request that passes validation, a category whose delta is negative and
  whose current mean is positive is classified by comparing the reduction percentage
  \<open>abs(change / current * 100)\<close> with the ceiling \<open>elasticity * 100\<close>, both as the
  floats the code computes: comfortable up to half the ceiling, moderate up to the
  ceiling, difficult up to one and a half times the ceiling, unrealistic above; the last
  two bands also append a warning that names the category. A reduction of 60% against a
  ceiling of 40% is therefore difficult, never comfortable: so is every delta that is
  -0.6 times the mean when the elasticity is the float 0.4.
\<close>

theorem reduction_feasibility_bands:
  assumes "query_model d uid = Some m"
    and "query_debits d uid (now - timedelta_days days) \<noteq> []"
    and "validate_sources E (or_empty (bm_category_stats m)) (sources_of req) = None"
    and "validate_targets E (targets_of req) = None"
    and "validate_exist (or_empty (bm_category_stats m)) (map fst req) = None"
    and "i < length req" and "req ! i = (c, change)" and "change < 0"
    and "current = dict_get (dict_get (or_empty (bm_category_stats m)) c []) ''mean'' 0"
    and "0 < current"
    and "category_elasticity = dict_get (or_empty (bm_elasticity m)) c (double 0.3)"
    and "reduction_in_range change current category_elasticity"
    and "reduction_pct = \<bar>double (double (change / current) * 100)\<bar>"
    and "ceiling_pct = double (category_elasticity * 100)"
  shows "\<exists>resp. simulate_reallocation E d uid req days now = Inr resp
      \<and> length (rr_reallocations resp) = length req
      \<and> cr_category (rr_reallocations resp ! i) = c
      \<and> \<bar>cr_change_percent (rr_reallocations resp ! i)\<bar> = reduction_pct
      \<and> cr_feasibility (rr_reallocations resp ! i) = spec_reduction_band reduction_pct ceiling_pct
      \<and> (spec_reduction_band reduction_pct ceiling_pct = Difficult
           \<longrightarrow> ReductionDifficult c reduction_pct ceiling_pct \<in> set (rr_warnings resp))
      \<and> (spec_reduction_band reduction_pct ceiling_pct = Unrealistic
           \<longrightarrow> ReductionExceeds c reduction_pct \<in> set (rr_warnings resp))
      \<and> (reduction_pct = 60 \<and> ceiling_pct = 40
           \<longrightarrow> cr_feasibility (rr_reallocations resp ! i) = Difficult)
      \<and> (change / current = - 0.6 \<and> category_elasticity = double 0.4
           \<longrightarrow> cr_feasibility (rr_reallocations resp ! i) = Difficult)"
proof -
  let ?stats = "or_empty (bm_category_stats m)" and ?el = "or_empty (bm_elasticity m)"
  from assms(6) have ne: "req \<noteq> []" by auto
  from simulate_reallocation_returns[OF assms(1-5) ne]
  obtain resp where r: "simulate_reallocation E d uid req days now = Inr resp"
    and ds: "rr_reallocations resp = map (\<lambda>x. fst (analyse E ?stats ?el x)) req"
    and ws: "rr_warnings resp = concat (map (\<lambda>x. snd (analyse E ?stats ?el x)) req)"
    by blast
  have pos: "0 < dict_get (dict_get ?stats c []) ''mean'' 0"
    using assms(9,10) by simp
  have rp: "reduction_pct
              = \<bar>double (double (change / dict_get (dict_get ?stats c []) ''mean'' 0) * 100)\<bar>"
    using assms(9,13) by simp
  have cp: "ceiling_pct = double (dict_get ?el c (double 0.3) * 100)"
    using assms(11,14) by simp
  have d_i: "rr_reallocations resp ! i = fst (analyse E ?stats ?el (c, change))"
    using ds assms(6,7) by simp
  have band: "cr_feasibility (rr_reallocations resp ! i)
                = spec_reduction_band reduction_pct ceiling_pct"
    unfolding d_i rp cp using analyse_reduction(1)[OF assms(8) pos] .
  have cat: "cr_category (rr_reallocations resp ! i) = c"
    unfolding d_i using analyse_reduction(2)[OF assms(8) pos] .
  have pct: "\<bar>cr_change_percent (rr_reallocations resp ! i)\<bar> = reduction_pct"
    unfolding d_i rp using analyse_reduction(3)[OF assms(8) pos, of E ?el] by simp
  have sub: "set (snd (analyse E ?stats ?el (c, change))) \<subseteq> set (rr_warnings resp)"
  proof -
    have "(c, change) \<in> set req" using assms(6,7) by (metis nth_mem)
    then show ?thesis unfolding ws by auto
  qed
  have w: "snd (analyse E ?stats ?el (c, change)) =
      (case spec_reduction_band reduction_pct ceiling_pct of
         Difficult \<Rightarrow> [ReductionDifficult c reduction_pct ceiling_pct]
       | Unrealistic \<Rightarrow> [ReductionExceeds c reduction_pct] | _ \<Rightarrow> [])"
    unfolding rp cp using analyse_reduction(4)[OF assms(8) pos]
    by (simp only: Let_def)
  have wd: "spec_reduction_band reduction_pct ceiling_pct = Difficult
           \<longrightarrow> ReductionDifficult c reduction_pct ceiling_pct \<in> set (rr_warnings resp)"
    using sub w by auto
  have wu: "spec_reduction_band reduction_pct ceiling_pct = Unrealistic
           \<longrightarrow> ReductionExceeds c reduction_pct \<in> set (rr_warnings resp)"
    using sub w by auto
  have ex: "reduction_pct = 60 \<and> ceiling_pct = 40
           \<longrightarrow> cr_feasibility (rr_reallocations resp ! i) = Difficult"
    unfolding band by (simp add: spec_reduction_band_def double_20 double_60)
  have ex': "cr_feasibility (rr_reallocations resp ! i) = Difficult"
    if "change / current = - 0.6 \<and> category_elasticity = double 0.4"
  proof -
    have q: "change / current = - 60 / 100" using that by simp
    have e: "category_elasticity = 3602879701896397 / 9007199254740992"
      using that double_literal_0_4 by simp
    have "reduction_pct = 60"
      unfolding assms(13) q double_60_over_100 double_60_percent by simp
    moreover have "ceiling_pct = 40"
      unfolding assms(14) e double_ceiling_40 by simp
    ultimately show ?thesis using ex by simp
  qed
  from r ds band cat pct wd wu ex ex' show ?thesis by simp
qed

text \<open>
  Two reductions in one request. The first is the specification's example: 60 of a mean of
  100 against the elasticity 0.4 is difficult. The second lies on a boundary that rounding
  moves: 87 of a mean of 100 against the elasticity 0.58 is unrealistic, because the
  ceiling \<open>0.58 * 100\<close> is the double just below 58 and one and a half times it is the
  double just below 87.
\<close>

theorem reduction_feasibility_bands_witness:
  "query_model boundary_db 3 = Some boundary_model
   \<and> query_debits boundary_db 3 (5000000000000 - timedelta_days 30) \<noteq> []
   \<and> validate_sources demo_essential (or_empty (bm_category_stats boundary_model))
        (sources_of [(''ENTERTAINMENT'', - 60), (''DINING'', - 87), (''SAVINGS'', 147)]) = None
   \<and> validate_targets demo_essential
        (targets_of [(''ENTERTAINMENT'', - 60), (''DINING'', - 87), (''SAVINGS'', 147)]) = None
   \<and> validate_exist (or_empty (bm_category_stats boundary_model))
        (map fst [(''ENTERTAINMENT'', - 60 :: real), (''DINING'', - 87), (''SAVINGS'', 147)]) = None
   \<and> reduction_in_range (- 60) 100 (3602879701896397 / 9007199254740992)
   \<and> reduction_in_range (- 87) 100 (5224175567749775 / 9007199254740992)
   \<and> (\<exists>resp. simulate_reallocation demo_essential boundary_db 3
                 [(''ENTERTAINMENT'', - 60), (''DINING'', - 87), (''SAVINGS'', 147)]
                 30 5000000000000 = Inr resp
         \<and> cr_category (rr_reallocations resp ! 0) = ''ENTERTAINMENT''
         \<and> cr_feasibility (rr_reallocations resp ! 0) = Difficult
         \<and> ReductionDifficult ''ENTERTAINMENT'' 60 40 \<in> set (rr_warnings resp)
         \<and> cr_category (rr_reallocations resp ! 1) = ''DINING''
         \<and> cr_feasibility (rr_reallocations resp ! 1) = Unrealistic
         \<and> ReductionExceeds ''DINING'' 87 \<in> set (rr_warnings resp))"
proof -
  let ?req = "[(''ENTERTAINMENT'', - 60 :: real), (''DINING'', - 87), (''SAVINGS'', 147)]"
  let ?e40 = "3602879701896397 / 9007199254740992 :: real"
  let ?e58 = "5224175567749775 / 9007199254740992 :: real"
  let ?c58 = "8162774324609023 / 140737488355328 :: real"
  have stats: "or_empty (bm_category_stats boundary_model) =
        [(''ENTERTAINMENT'', [(''count'', 12), (''mean'', 100), (''std_dev'', 40)]),
         (''DINING'', [(''count'', 9), (''mean'', 100), (''std_dev'', 58)])]"
    and el: "or_empty (bm_elasticity boundary_model)
               = [(''ENTERTAINMENT'', ?e40), (''DINING'', ?e58)]"
    by (simp_all add: boundary_model_def or_empty_def)
  have h1: "query_model boundary_db 3 = Some boundary_model"
    by (simp add: query_model_def boundary_db_def boundary_model_def)
  have h2: "query_debits boundary_db 3 (5000000000000 - timedelta_days 30) \<noteq> []"
    by (simp add: query_debits_def boundary_db_def timedelta_days_def)
  have h3: "validate_sources demo_essential (or_empty (bm_category_stats boundary_model))
        (sources_of ?req) = None"
    by (simp add: stats sources_of_def demo_essential_def dict_in_def)
  have h4: "validate_targets demo_essential (targets_of ?req) = None"
    by (simp add: targets_of_def demo_essential_def BENEFICIAL_def)
  have h5: "validate_exist (or_empty (bm_category_stats boundary_model)) (map fst ?req) = None"
    by (simp add: stats dict_in_def BENEFICIAL_def)
  have i0: "0 < length ?req" and r0: "?req ! 0 = (''ENTERTAINMENT'', - 60)"
    and i1: "1 < length ?req" and r1: "?req ! 1 = (''DINING'', - 87)"
    and n0: "(- 60 :: real) < 0" and n1: "(- 87 :: real) < 0" and p: "(0::real) < 100"
    by simp_all
  have m0: "(100::real) = dict_get (dict_get (or_empty (bm_category_stats boundary_model))
              ''ENTERTAINMENT'' []) ''mean'' 0"
    and m1: "(100::real) = dict_get (dict_get (or_empty (bm_category_stats boundary_model))
              ''DINING'' []) ''mean'' 0"
    by (simp_all add: stats dict_get_def)
  have e0: "?e40 = dict_get (or_empty (bm_elasticity boundary_model)) ''ENTERTAINMENT'' (double 0.3)"
    and e1: "?e58 = dict_get (or_empty (bm_elasticity boundary_model)) ''DINING'' (double 0.3)"
    by (simp_all add: el dict_get_def)
  have g0: "reduction_in_range (- 60) 100 ?e40"
    unfolding reduction_in_range_def is_double_def no_overflow_def double_minus_60
      double_100 double_0_4 double_60_over_100 double_ceiling_40
    by simp
  have g1: "reduction_in_range (- 87) 100 ?e58"
    unfolding reduction_in_range_def is_double_def no_overflow_def double_minus_87
      double_100 double_0_58 double_87_over_100 double_ceiling_58
    by simp
  have q0: "(60::real) = \<bar>double (double (- 60 / 100) * 100)\<bar>"
    unfolding double_60_over_100 double_60_percent by simp
  have q1: "(87::real) = \<bar>double (double (- 87 / 100) * 100)\<bar>"
    unfolding double_87_over_100 double_87_percent by simp
  have c0: "(40::real) = double (?e40 * 100)" unfolding double_ceiling_40 by simp
  have c1: "?c58 = double (?e58 * 100)" unfolding double_ceiling_58 by simp
  have b0: "spec_reduction_band 60 40 = Difficult"
    by (simp add: spec_reduction_band_def double_20 double_60)
  have b1: "spec_reduction_band 87 ?c58 = Unrealistic"
    unfolding spec_reduction_band_def double_half_ceiling_58 double_three_halves_ceiling_58
    by simp
  from reduction_feasibility_bands[OF h1 h2 h3 h4 h5 i0 r0 n0 m0 p e0 g0 q0 c0] b0
  obtain resp where r: "simulate_reallocation demo_essential boundary_db 3 ?req
                          30 5000000000000 = Inr resp"
    and a: "cr_category (rr_reallocations resp ! 0) = ''ENTERTAINMENT''"
           "cr_feasibility (rr_reallocations resp ! 0) = Difficult"
           "ReductionDifficult ''ENTERTAINMENT'' 60 40 \<in> set (rr_warnings resp)"
    by auto
  from reduction_feasibility_bands[OF h1 h2 h3 h4 h5 i1 r1 n1 m1 p e1 g1 q1 c1] b1 r
  have b: "cr_category (rr_reallocations resp ! 1) = ''DINING''"
          "cr_feasibility (rr_reallocations resp ! 1) = Unrealistic"
          "ReductionExceeds ''DINING'' 87 \<in> set (rr_warnings resp)"
    by auto
  from h1 h2 h3 h4 h5 g0 g1 r a b show ?thesis by blast
qed

subsection \<open>Rejected requests\<close>

text \<open>
  Claim C3. When the simulator reaches validation (the user has a behaviour model and a
  debit transaction in the window) and the request holds a negative-delta category that is
  essential or absent from the category statistics, the request is rejected: the result is
  the error of the first such source in the request's order, which names that category
  (the reduction of an essential category, or a category not found), and no response with
  a classification is produced.
\<close>

theorem essential_or_unknown_source_rejected:
  assumes "query_model d uid = Some m"
    and "query_debits d uid (now - timedelta_days days) \<noteq> []"
    and "(c0, change) \<in> set req" and "change < 0"
    and "c0 \<in> set E \<or> \<not> dict_in c0 (or_empty (bm_category_stats m))"
  shows "\<exists>c. find (source_rejected E (or_empty (bm_category_stats m))) (sources_of req) = Some c
           \<and> c \<in> set (sources_of req)
           \<and> (c \<in> set E \<or> \<not> dict_in c (or_empty (bm_category_stats m)))
           \<and> simulate_reallocation E d uid req days now
               = Inl (if c \<in> set E then CannotReduceEssential c else CategoryNotFound c)"
proof -
  have "c0 \<in> set (sources_of req)"
    using assms(3,4) by (force simp: sources_of_def)
  moreover have "source_rejected E (or_empty (bm_category_stats m)) c0"
    using assms(5) by (simp add: source_rejected_def)
  ultimately obtain c
    where f: "find (source_rejected E (or_empty (bm_category_stats m))) (sources_of req) = Some c"
    using find_exists by metis
  have "c \<in> set (sources_of req)"
    and "c \<in> set E \<or> \<not> dict_in c (or_empty (bm_category_stats m))"
    using f by (auto simp: find_Some_iff source_rejected_def in_set_conv_nth)
  with simulate_reallocation_rejects_source[OF assms(1,2) f] f
  show ?thesis by (auto simp: source_error_def)
qed

theorem essential_or_unknown_source_rejected_witness:
  "query_model demo_db 1 = Some demo_model
   \<and> query_debits demo_db 1 (5000000000000 - timedelta_days 30) \<noteq> []
   \<and> (''GROCERIES'', - 50) \<in> set [(''GROCERIES'', - 50 :: real), (''SAVINGS'', 50)]
   \<and> ''GROCERIES'' \<in> set demo_essential
   \<and> simulate_reallocation demo_essential demo_db 1 [(''GROCERIES'', - 50), (''SAVINGS'', 50)]
        30 5000000000000 = Inl (CannotReduceEssential ''GROCERIES'')"
proof -
  let ?req = "[(''GROCERIES'', - 50 :: real), (''SAVINGS'', 50)]"
  have h3: "(''GROCERIES'', - 50) \<in> set ?req" by simp
  have h4: "(- 50 :: real) < 0" by simp
  have h5: "''GROCERIES'' \<in> set demo_essential" by (simp add: demo_essential_def)
  have f: "find (source_rejected demo_essential (or_empty (bm_category_stats demo_model)))
             (sources_of ?req) = Some ''GROCERIES''"
    by (simp add: sources_of_def source_rejected_def demo_essential_def)
  from essential_or_unknown_source_rejected[OF demo_query_model demo_debits_ne h3 h4 disjI1[OF h5]] f h5
  have "simulate_reallocation demo_essential demo_db 1 ?req 30 5000000000000
          = Inl (CannotReduceEssential ''GROCERIES'')" by auto
  with demo_query_model demo_debits_ne h3 h5 show ?thesis by blast
qed

text \<open>
  Claim C4. When the simulator reaches validation and the request holds a positive-delta
  category that is neither essential nor one of SAVINGS, DEBT_PAYMENT, INVESTMENT, the
  request is rejected with an error that carries the offending category and the rule: the
  error of the first rejected source if there is one (sources are checked first), and
  otherwise the increase of a discretionary category, naming the first such target.
\<close>

theorem discretionary_target_rejected:
  assumes "query_model d uid = Some m"
    and "query_debits d uid (now - timedelta_days days) \<noteq> []"
    and "(c0, change) \<in> set req" and "0 < change"
    and "c0 \<notin> set E" and "c0 \<notin> set [''SAVINGS'', ''DEBT_PAYMENT'', ''INVESTMENT'']"
  shows "\<exists>e. simulate_reallocation E d uid req days now = Inl e
           \<and> (case find (source_rejected E (or_empty (bm_category_stats m))) (sources_of req) of
                 Some s \<Rightarrow> e = source_error E s
               | None \<Rightarrow> (\<exists>c. find (target_rejected E) (targets_of req) = Some c
                               \<and> e = CannotIncreaseDiscretionary c))"
proof (cases "find (source_rejected E (or_empty (bm_category_stats m))) (sources_of req)")
  case None
  have "c0 \<in> set (targets_of req)"
    using assms(3,4) by (force simp: targets_of_def)
  moreover have "target_rejected E c0"
    using assms(5,6) by (simp add: target_rejected_def BENEFICIAL_def)
  ultimately obtain c where f: "find (target_rejected E) (targets_of req) = Some c"
    using find_exists by metis
  from simulate_reallocation_rejects_target[OF assms(1,2) None f] f None
  show ?thesis by simp
next
  case (Some s)
  from simulate_reallocation_rejects_source[OF assms(1,2) Some] Some
  show ?thesis by simp
qed

theorem discretionary_target_rejected_witness:
  "query_model demo_db 1 = Some demo_model
   \<and> query_debits demo_db 1 (5000000000000 - timedelta_days 30) \<noteq> []
   \<and> (''TRAVEL'', 50) \<in> set [(''ENTERTAINMENT'', - 50 :: real), (''TRAVEL'', 50)]
   \<and> ''TRAVEL'' \<notin> set demo_essential
   \<and> ''TRAVEL'' \<notin> set [''SAVINGS'', ''DEBT_PAYMENT'', ''INVESTMENT'']
   \<and> simulate_reallocation demo_essential demo_db 1 [(''ENTERTAINMENT'', - 50), (''TRAVEL'', 50)]
        30 5000000000000 = Inl (CannotIncreaseDiscretionary ''TRAVEL'')"
proof -
  let ?req = "[(''ENTERTAINMENT'', - 50 :: real), (''TRAVEL'', 50)]"
  have h3: "(''TRAVEL'', 50) \<in> set ?req" by simp
  have h4: "(0 :: real) < 50" by simp
  have h5: "''TRAVEL'' \<notin> set demo_essential" by (simp add: demo_essential_def)
  have h6: "''TRAVEL'' \<notin> set [''SAVINGS'', ''DEBT_PAYMENT'', ''INVESTMENT'']" by simp
  have f: "find (source_rejected demo_essential (or_empty (bm_category_stats demo_model)))
             (sources_of ?req) = None"
    by (simp add: sources_of_def source_rejected_def demo_essential_def demo_stats dict_in_def)
  have t: "find (target_rejected demo_essential) (targets_of ?req) = Some ''TRAVEL''"
    by (simp add: targets_of_def target_rejected_def demo_essential_def BENEFICIAL_def)
  from discretionary_target_rejected[OF demo_query_model demo_debits_ne h3 h4 h5 h6] f t
  have "simulate_reallocation demo_essential demo_db 1 ?req 30 5000000000000
          = Inl (CannotIncreaseDiscretionary ''TRAVEL'')" by auto
  with demo_query_model demo_debits_ne h3 h5 h6 show ?thesis by blast
qed

subsection \<open>Requests that do not net to zero\<close>

text \<open>
  Claim C10. Validation never looks at the sum of the deltas. Every request that passes
  validation and holds at least one delta (as any request whose deltas do not net to zero
  does) is classified: the response has one detail per delta, its projected monthly total
  equals its baseline monthly total (the sum of the window's debits), and it is reported
  balanced, whatever the deltas sum to. More generally every response the simulator
  returns, for any request, has these two properties.
\<close>

theorem unbalanced_request_classified:
  assumes "query_model d uid = Some m"
    and "query_debits d uid (now - timedelta_days days) \<noteq> []"
    and "validate_sources E (or_empty (bm_category_stats m)) (sources_of req) = None"
    and "validate_targets E (targets_of req) = None"
    and "validate_exist (or_empty (bm_category_stats m)) (map fst req) = None"
    and "req \<noteq> []"
  shows "(\<exists>resp. simulate_reallocation E d uid req days now = Inr resp
      \<and> length (rr_reallocations resp) = length req
      \<and> rr_baseline_monthly resp
          = sum_list (map tx_amount (query_debits d uid (now - timedelta_days days)))
      \<and> rr_projected_monthly resp = rr_baseline_monthly resp
      \<and> rr_is_balanced resp)
    \<and> (\<forall>E' d' uid' req' days' now' resp'.
          simulate_reallocation E' d' uid' req' days' now' = Inr resp'
          \<longrightarrow> rr_projected_monthly resp' = rr_baseline_monthly resp' \<and> rr_is_balanced resp')"
  using simulate_reallocation_returns[OF assms] simulate_reallocation_response by auto

theorem unbalanced_request_classified_witness:
  "query_model demo_db 1 = Some demo_model
   \<and> query_debits demo_db 1 (5000000000000 - timedelta_days 30) \<noteq> []
   \<and> validate_sources demo_essential (or_empty (bm_category_stats demo_model))
        (sources_of [(''ENTERTAINMENT'', - 30), (''SAVINGS'', 10)]) = None
   \<and> validate_targets demo_essential (targets_of [(''ENTERTAINMENT'', - 30), (''SAVINGS'', 10)]) = None
   \<and> validate_exist (or_empty (bm_category_stats demo_model))
        (map fst [(''ENTERTAINMENT'', - 30 :: real), (''SAVINGS'', 10)]) = None
   \<and> sum_list (map snd [(''ENTERTAINMENT'', - 30 :: real), (''SAVINGS'', 10)]) = - 20
   \<and> (\<exists>resp. simulate_reallocation demo_essential demo_db 1
                 [(''ENTERTAINMENT'', - 30), (''SAVINGS'', 10)] 30 5000000000000 = Inr resp
         \<and> length (rr_reallocations resp) = 2
         \<and> rr_baseline_monthly resp = 250
         \<and> rr_projected_monthly resp = 250
         \<and> rr_is_balanced resp)"
proof -
  let ?req = "[(''ENTERTAINMENT'', - 30 :: real), (''SAVINGS'', 10)]"
  have h3: "validate_sources demo_essential (or_empty (bm_category_stats demo_model))
        (sources_of ?req) = None"
    by (simp add: demo_stats sources_of_def demo_essential_def dict_in_def)
  have h4: "validate_targets demo_essential (targets_of ?req) = None"
    by (simp add: targets_of_def demo_essential_def BENEFICIAL_def)
  have h5: "validate_exist (or_empty (bm_category_stats demo_model)) (map fst ?req) = None"
    by (simp add: demo_stats dict_in_def BENEFICIAL_def)
  have h6: "?req \<noteq> []" by simp
  have s: "sum_list (map snd ?req) = - 20" by simp
  from unbalanced_request_classified[OF demo_query_model demo_debits_ne h3 h4 h5 h6]
  have "\<exists>resp. simulate_reallocation demo_essential demo_db 1 ?req 30 5000000000000 = Inr resp
         \<and> length (rr_reallocations resp) = 2
         \<and> rr_baseline_monthly resp = 250
         \<and> rr_projected_monthly resp = 250
         \<and> rr_is_balanced resp"
    by (auto simp: demo_query_debits)
  with demo_query_model demo_debits_ne h3 h4 h5 s show ?thesis by blast
qed

section \<open>Users without transactions in the window\<close>

text \<open>
  Claim C2, as the code has it. For a user who has a behaviour model and no debit
  transaction in the analysis window, the reallocation simulator and the spending
  projector both raise the \<open>ValueError\<close> "No transactions found in the specified
  period"; the projector leaves the generator untouched.
\<close>

theorem no_transactions_raises:
  assumes "query_model d uid = Some m"
    and "query_debits d uid (now - timedelta_days days) = []"
  shows "simulate_reallocation E d uid req days now = Inl NoTransactions
       \<and> project_future_spending R d uid n days changes scenario now current_date g
           = (Inl NoTransactions, g)"
  using assms by (simp add: simulate_reallocation_def project_future_spending_def)

theorem no_transactions_raises_witness:
  "query_model idle_db 1 = Some demo_model
   \<and> query_debits idle_db 1 (5000000000000 - timedelta_days 30) = []
   \<and> simulate_reallocation demo_essential idle_db 1 [(''ENTERTAINMENT'', - 10)] 30 5000000000000
       = Inl NoTransactions
   \<and> project_future_spending demo_rng idle_db 1 3 30 None None 5000000000000
       \<lparr>dt_year = 2026, dt_month = 11\<rparr> 0 = (Inl NoTransactions, 0)"
proof -
  have h1: "query_model idle_db 1 = Some demo_model"
    by (simp add: query_model_def idle_db_def demo_model_def)
  have h2: "query_debits idle_db 1 (5000000000000 - timedelta_days 30) = []"
    by (simp add: query_debits_def idle_db_def)
  from no_transactions_raises[OF h1 h2] h1 h2 show ?thesis by simp
qed

text \<open>
  Claim C2 as stated says that neither function raises for a user without transactions in
  the window. Both raise when the user's only debit is older than the window.
\<close>

theorem no_transactions_raises_counterexample:
  "simulate_reallocation demo_essential stale_db 1 [(''ENTERTAINMENT'', - 10), (''SAVINGS'', 10)]
       30 5000000000000 = Inl NoTransactions
   \<and> fst (project_future_spending demo_rng stale_db 1 3 30 None None 5000000000000
            \<lparr>dt_year = 2026, dt_month = 11\<rparr> 0) = Inl NoTransactions"
  by (simp add: simulate_reallocation_def project_future_spending_def query_model_def
      query_debits_def stale_db_def demo_model_def timedelta_days_def)

section \<open>The spending projector\<close>

subsection \<open>The two loops in closed form\<close>

lemma project_category_amount:
  "fst (project_category R k ch item)
     = spec_projected_amount (dict_get (snd item) ''mean'' 0) (dict_get ch (fst item) 0)
         (variation R k)"
  by (simp add: project_category_def Let_def variation_def spec_projected_amount_def
      split: prod.splits)

lemma variation_bounds:
  assumes "0 \<le> fst (rng_random R (rng_seed R k))" and "fst (rng_random R (rng_seed R k)) < 1"
  shows "- 0.05 \<le> variation R k" and "variation R k < 0.05"
  using assms by (auto simp add: variation_def uniform_def split: prod.splits)

lemma project_categories_closed:
  "fst (project_categories R k ch items (cs, t, g))
     = foldl (\<lambda>d p. AList.update (fst p) (round2 (mean_amount R k ch p)) d) cs (base_means items)"
  "fst (snd (project_categories R k ch items (cs, t, g)))
     = t + sum_list (map (mean_amount R k ch) (base_means items))"
proof (induction items arbitrary: cs t g)
  case Nil
  { case 1 show ?case by (simp add: base_means_def) }
  { case 2 show ?case by (simp add: base_means_def) }
next
  case (Cons item items)
  obtain a g' where pc: "project_category R k ch item = (a, g')" by (cases "project_category R k ch item")
  have a: "a = mean_amount R k ch (fst item, dict_get (snd item) ''mean'' 0)"
    using project_category_amount[of R k ch item] pc by (simp add: mean_amount_def)
  { case 1 show ?case using Cons.IH(1) pc a by (simp add: base_means_def) }
  { case 2 show ?case using Cons.IH(2) pc a by (simp add: base_means_def algebra_simps) }
qed

lemma map_of_foldl_update:
  assumes "distinct (map fst ps)" and "(c, b) \<in> set ps"
  shows "map_of (foldl (\<lambda>d p. AList.update (fst p) (h p) d) cs ps) c = Some (h (c, b))"
  using assms
proof (induction ps rule: rev_induct)
  case Nil
  then show ?case by simp
next
  case (snoc x xs)
  show ?case
  proof (cases "(c, b) = x")
    case True
    then show ?thesis by (auto simp: update_conv)
  next
    case False
    with snoc.prems have in_xs: "(c, b) \<in> set xs" by auto
    with snoc.prems have "fst x \<noteq> c" by (force simp: image_iff)
    moreover have "map_of (foldl (\<lambda>d p. AList.update (fst p) (h p) d) cs xs) c = Some (h (c, b))"
      using snoc.IH snoc.prems in_xs by simp
    ultimately show ?thesis by (simp add: update_conv)
  qed
qed

lemma project_month_fields:
  "mp_month (fst (project_month R stats ch b cur k st)) = k"
  "mp_confidence (fst (project_month R stats ch b cur k st)) = max 0.5 (1 - of_int k * 0.03)"
  "mp_category_breakdown (fst (project_month R stats ch b cur k st))
     = foldl (\<lambda>d p. AList.update (fst p) (round2 (mean_amount R k ch p)) d) [] (base_means stats)"
  "mp_projected_spending (fst (project_month R stats ch b cur k st))
     = round2 (sum_list (map (mean_amount R k ch) (base_means stats)))"
proof -
  obtain cs t g' where pc: "project_categories R k ch stats ([], 0, snd st) = (cs, t, g')"
    by (cases "project_categories R k ch stats ([], 0, snd st)") auto
  have cs: "cs = foldl (\<lambda>d p. AList.update (fst p) (round2 (mean_amount R k ch p)) d) []
                   (base_means stats)"
    using project_categories_closed(1)[of R k ch stats "[]" 0 "snd st"] pc by simp
  have t: "t = sum_list (map (mean_amount R k ch) (base_means stats))"
    using project_categories_closed(2)[of R k ch stats "[]" 0 "snd st"] pc by simp
  show "mp_month (fst (project_month R stats ch b cur k st)) = k"
    by (simp add: project_month_def Let_def pc)
  show "mp_confidence (fst (project_month R stats ch b cur k st)) = max 0.5 (1 - of_int k * 0.03)"
    by (simp add: project_month_def Let_def pc)
  show "mp_category_breakdown (fst (project_month R stats ch b cur k st))
     = foldl (\<lambda>d p. AList.update (fst p) (round2 (mean_amount R k ch p)) d) [] (base_means stats)"
    by (simp add: project_month_def Let_def pc cs)
  show "mp_projected_spending (fst (project_month R stats ch b cur k st))
     = round2 (sum_list (map (mean_amount R k ch) (base_means stats)))"
    by (simp add: project_month_def Let_def pc t)
qed

lemma project_months_map:
  assumes "\<And>k st. f (fst (project_month R stats ch b cur k st)) = h k"
  shows "map f (fst (project_months R stats ch b cur ms (acc, cc, g))) = map f acc @ map h ms"
proof (induction ms arbitrary: acc cc g)
  case Nil
  show ?case by simp
next
  case (Cons k ms)
  obtain m cc' g' where pm: "project_month R stats ch b cur k (cc, g) = (m, cc', g')"
    by (cases "project_month R stats ch b cur k (cc, g)") auto
  have "f m = h k" using assms[of k "(cc, g)"] pm by simp
  then show ?case using Cons.IH[of "acc @ [m]" cc' g'] pm by simp
qed

lemma project_future_spending_returns:
  assumes "query_model d uid = Some m"
    and "query_debits d uid (now - timedelta_days days) \<noteq> []"
    and "n \<noteq> 0"
  shows "\<exists>resp g'. project_future_spending R d uid n days changes sc now cur g = (Inr resp, g')
     \<and> pr_monthly_projections resp
         = fst (project_months R (or_empty (bm_category_stats m)) (or_empty changes)
                  (sum_list (map tx_amount (query_debits d uid (now - timedelta_days days))))
                  cur [1 .. n] ([], 0, g))"
  using assms by (simp add: project_future_spending_def Let_def split: prod.splits)

text \<open>The annual impact of line 110 divides by the horizon.\<close>

lemma project_future_spending_zero_months:
  assumes "query_model d uid = Some m"
    and "query_debits d uid (now - timedelta_days days) \<noteq> []"
  shows "project_future_spending R d uid 0 days changes sc now cur g = (Inl ZeroDivisionError, g)"
  using assms by (simp add: project_future_spending_def Let_def)

lemma upto_nth: "i < nat n \<Longrightarrow> [1 .. n] ! i = int i + 1"
  by (simp add: nth_upto)

lemma monthly_projection_fields:
  assumes "query_model d uid = Some m"
    and "query_debits d uid (now - timedelta_days days) \<noteq> []"
    and "n \<noteq> 0"
  shows "\<exists>resp g'. project_future_spending R d uid n days changes sc now cur g = (Inr resp, g')
     \<and> map mp_month (pr_monthly_projections resp) = [1 .. n]
     \<and> map mp_category_breakdown (pr_monthly_projections resp)
         = map (\<lambda>k. foldl (\<lambda>d p. AList.update (fst p)
                                  (round2 (mean_amount R k (or_empty changes) p)) d) []
                        (base_means (or_empty (bm_category_stats m)))) [1 .. n]
     \<and> map mp_projected_spending (pr_monthly_projections resp)
         = map (\<lambda>k. round2 (sum_list (map (mean_amount R k (or_empty changes))
                        (base_means (or_empty (bm_category_stats m)))))) [1 .. n]"
proof -
  let ?stats = "or_empty (bm_category_stats m)" and ?ch = "or_empty changes"
  let ?b = "sum_list (map tx_amount (query_debits d uid (now - timedelta_days days)))"
  from project_future_spending_returns[OF assms, of R changes sc cur g]
  obtain resp g' where r: "project_future_spending R d uid n days changes sc now cur g = (Inr resp, g')"
    and mps: "pr_monthly_projections resp
                = fst (project_months R ?stats ?ch ?b cur [1 .. n] ([], 0, g))"
    by blast
  have months: "map mp_month (pr_monthly_projections resp) = [1 .. n]"
    unfolding mps using project_months_map[of mp_month R ?stats ?ch ?b cur "\<lambda>k. k"]
    by (simp add: project_month_fields(1))
  have bd: "map mp_category_breakdown (pr_monthly_projections resp)
         = map (\<lambda>k. foldl (\<lambda>d p. AList.update (fst p) (round2 (mean_amount R k ?ch p)) d) []
                        (base_means ?stats)) [1 .. n]"
    unfolding mps
    using project_months_map[of mp_category_breakdown R ?stats ?ch ?b cur
        "\<lambda>k. foldl (\<lambda>d p. AList.update (fst p) (round2 (mean_amount R k ?ch p)) d) []
                        (base_means ?stats)"]
    by (simp add: project_month_fields(3))
  have sp: "map mp_projected_spending (pr_monthly_projections resp)
         = map (\<lambda>k. round2 (sum_list (map (mean_amount R k ?ch) (base_means ?stats)))) [1 .. n]"
    unfolding mps
    using project_months_map[of mp_projected_spending R ?stats ?ch ?b cur
        "\<lambda>k. round2 (sum_list (map (mean_amount R k ?ch) (base_means ?stats)))"]
    by (simp add: project_month_fields(4))
  from r months bd sp show ?thesis by blast
qed

subsection \<open>Reproducible amounts\<close>

text \<open>
  Claim C5. Two calls of the projector with the same baseline category means, the same
  horizon and the same behavioural changes return the same months, the same category
  amounts for every month and the same monthly totals, whatever the state of the
  generator before each call, the readings of the clock, the transactions of the window
  or the rest of the two databases.
\<close>

theorem projection_reproducible:
  assumes "query_model d1 uid1 = Some m1" and "query_model d2 uid2 = Some m2"
    and "query_debits d1 uid1 (now1 - timedelta_days days1) \<noteq> []"
    and "query_debits d2 uid2 (now2 - timedelta_days days2) \<noteq> []"
    and "n \<noteq> 0"
    and "base_means (or_empty (bm_category_stats m1)) = base_means (or_empty (bm_category_stats m2))"
  shows "\<exists>r1 r2 h1 h2.
       project_future_spending R d1 uid1 n days1 changes sc1 now1 cur1 g1 = (Inr r1, h1)
     \<and> project_future_spending R d2 uid2 n days2 changes sc2 now2 cur2 g2 = (Inr r2, h2)
     \<and> map mp_month (pr_monthly_projections r1) = map mp_month (pr_monthly_projections r2)
     \<and> map mp_category_breakdown (pr_monthly_projections r1)
         = map mp_category_breakdown (pr_monthly_projections r2)
     \<and> map mp_projected_spending (pr_monthly_projections r1)
         = map mp_projected_spending (pr_monthly_projections r2)"
proof -
  from monthly_projection_fields[OF assms(1,3,5), of R changes sc1 cur1 g1]
  obtain r1 h1 where a: "project_future_spending R d1 uid1 n days1 changes sc1 now1 cur1 g1 = (Inr r1, h1)"
    and a1: "map mp_month (pr_monthly_projections r1) = [1 .. n]"
    and a2: "map mp_category_breakdown (pr_monthly_projections r1)
         = map (\<lambda>k. foldl (\<lambda>d p. AList.update (fst p)
                                  (round2 (mean_amount R k (or_empty changes) p)) d) []
                        (base_means (or_empty (bm_category_stats m1)))) [1 .. n]"
    and a3: "map mp_projected_spending (pr_monthly_projections r1)
         = map (\<lambda>k. round2 (sum_list (map (mean_amount R k (or_empty changes))
                        (base_means (or_empty (bm_category_stats m1)))))) [1 .. n]"
    by blast
  from monthly_projection_fields[OF assms(2,4,5), of R changes sc2 cur2 g2]
  obtain r2 h2 where b: "project_future_spending R d2 uid2 n days2 changes sc2 now2 cur2 g2 = (Inr r2, h2)"
    and b1: "map mp_month (pr_monthly_projections r2) = [1 .. n]"
    and b2: "map mp_category_breakdown (pr_monthly_projections r2)
         = map (\<lambda>k. foldl (\<lambda>d p. AList.update (fst p)
                                  (round2 (mean_amount R k (or_empty changes) p)) d) []
                        (base_means (or_empty (bm_category_stats m2)))) [1 .. n]"
    and b3: "map mp_projected_spending (pr_monthly_projections r2)
         = map (\<lambda>k. round2 (sum_list (map (mean_amount R k (or_empty changes))
                        (base_means (or_empty (bm_category_stats m2)))))) [1 .. n]"
    by blast
  have "map mp_month (pr_monthly_projections r1) = map mp_month (pr_monthly_projections r2)"
    using a1 b1 by simp
  moreover have "map mp_category_breakdown (pr_monthly_projections r1)
         = map mp_category_breakdown (pr_monthly_projections r2)"
    using a2 b2 assms(6) by simp
  moreover have "map mp_projected_spending (pr_monthly_projections r1)
         = map mp_projected_spending (pr_monthly_projections r2)"
    using a3 b3 assms(6) by simp
  ultimately show ?thesis using a b by blast
qed

theorem projection_reproducible_witness:
  "query_model demo_db 1 = Some demo_model
   \<and> query_debits demo_db 1 (5000000000000 - timedelta_days 30) \<noteq> []
   \<and> query_debits demo_db 1 (5000000000077 - timedelta_days 60) \<noteq> []
   \<and> (\<exists>r1 r2 h1 h2.
        project_future_spending demo_rng demo_db 1 2 30 (Some [(''ENTERTAINMENT'', - 10)]) None
          5000000000000 \<lparr>dt_year = 2026, dt_month = 11\<rparr> 0 = (Inr r1, h1)
      \<and> project_future_spending demo_rng demo_db 1 2 60 (Some [(''ENTERTAINMENT'', - 10)]) None
          5000000000077 \<lparr>dt_year = 2027, dt_month = 1\<rparr> 123456 = (Inr r2, h2)
      \<and> map mp_category_breakdown (pr_monthly_projections r1)
          = map mp_category_breakdown (pr_monthly_projections r2)
      \<and> map mp_projected_spending (pr_monthly_projections r1)
          = map mp_projected_spending (pr_monthly_projections r2))"
proof -
  have h4: "query_debits demo_db 1 (5000000000077 - timedelta_days 60) \<noteq> []"
    by (simp add: query_debits_def demo_db_def timedelta_days_def)
  have h5: "(2::int) \<noteq> 0" by simp
  from projection_reproducible[OF demo_query_model demo_query_model demo_debits_ne h4 h5 refl,
      of demo_rng "Some [(''ENTERTAINMENT'', - 10)]" None "\<lparr>dt_year = 2026, dt_month = 11\<rparr>" 0
         None "\<lparr>dt_year = 2027, dt_month = 1\<rparr>" 123456]
  have "\<exists>r1 r2 h1 h2.
        project_future_spending demo_rng demo_db 1 2 30 (Some [(''ENTERTAINMENT'', - 10)]) None
          5000000000000 \<lparr>dt_year = 2026, dt_month = 11\<rparr> 0 = (Inr r1, h1)
      \<and> project_future_spending demo_rng demo_db 1 2 60 (Some [(''ENTERTAINMENT'', - 10)]) None
          5000000000077 \<lparr>dt_year = 2027, dt_month = 1\<rparr> 123456 = (Inr r2, h2)
      \<and> map mp_category_breakdown (pr_monthly_projections r1)
          = map mp_category_breakdown (pr_monthly_projections r2)
      \<and> map mp_projected_spending (pr_monthly_projections r1)
          = map mp_projected_spending (pr_monthly_projections r2)"
    by blast
  with demo_query_model demo_debits_ne h4 show ?thesis by blast
qed

subsection \<open>The projected amount of a category\<close>

text \<open>
  Claim C6. For a month \<open>k\<close> of the horizon and a category of the statistics with
  baseline mean \<open>base\<close> and requested change \<open>change_pct\<close>, the projected amount is
  \<open>base * (1 + change_pct / 100) * (1 + v)\<close>, where \<open>v\<close> is the month's variation and
  lies in \<open>[-0.05, 0.05]\<close> as soon as the generator's draw lies in \<open>[0, 1)\<close>; the
  category breakdown of month \<open>k\<close> reports that amount rounded to two decimals.
\<close>

theorem projected_amount_formula:
  assumes "query_model d uid = Some m"
    and "query_debits d uid (now - timedelta_days days) \<noteq> []"
    and "distinct (map fst (or_empty (bm_category_stats m)))"
    and "(c, cs) \<in> set (or_empty (bm_category_stats m))"
    and "1 \<le> k" and "k \<le> n"
    and "0 \<le> fst (rng_random R (rng_seed R k))" and "fst (rng_random R (rng_seed R k)) < 1"
    and "base = dict_get cs ''mean'' 0"
    and "change_pct = dict_get (or_empty changes) c 0"
    and "v = variation R k"
  shows "\<exists>resp g'. project_future_spending R d uid n days changes sc now cur g = (Inr resp, g')
     \<and> length (pr_monthly_projections resp) = nat n
     \<and> mp_month (pr_monthly_projections resp ! nat (k - 1)) = k
     \<and> - 0.05 \<le> v \<and> v \<le> 0.05
     \<and> fst (project_category R k (or_empty changes) (c, cs))
         = base * (1 + change_pct / 100) * (1 + v)
     \<and> map_of (mp_category_breakdown (pr_monthly_projections resp ! nat (k - 1))) c
         = Some (round2 (base * (1 + change_pct / 100) * (1 + v)))"
proof -
  let ?stats = "or_empty (bm_category_stats m)" and ?ch = "or_empty changes"
  have n0: "n \<noteq> 0" using assms(5,6) by simp
  from monthly_projection_fields[OF assms(1,2) n0, of R changes sc cur g]
  obtain resp g' where r: "project_future_spending R d uid n days changes sc now cur g = (Inr resp, g')"
    and ms: "map mp_month (pr_monthly_projections resp) = [1 .. n]"
    and bd: "map mp_category_breakdown (pr_monthly_projections resp)
         = map (\<lambda>k. foldl (\<lambda>d p. AList.update (fst p) (round2 (mean_amount R k ?ch p)) d) []
                        (base_means ?stats)) [1 .. n]"
    by blast
  let ?i = "nat (k - 1)"
  have i: "?i < nat n" using assms(5,6) by simp
  have len: "length (pr_monthly_projections resp) = nat n"
    using arg_cong[OF ms, of length] by simp
  have ki: "[1 .. n] ! ?i = k" using i assms(5) by (simp add: upto_nth)
  have month: "mp_month (pr_monthly_projections resp ! ?i) = k"
  proof -
    have "map mp_month (pr_monthly_projections resp) ! ?i = [1 .. n] ! ?i" using ms by simp
    then show ?thesis using i len ki by simp
  qed
  have bd_i: "mp_category_breakdown (pr_monthly_projections resp ! ?i)
     = foldl (\<lambda>d p. AList.update (fst p) (round2 (mean_amount R k ?ch p)) d) [] (base_means ?stats)"
  proof -
    have "map mp_category_breakdown (pr_monthly_projections resp) ! ?i
         = map (\<lambda>k. foldl (\<lambda>d p. AList.update (fst p) (round2 (mean_amount R k ?ch p)) d) []
                        (base_means ?stats)) [1 .. n] ! ?i"
      using bd by simp
    then show ?thesis using i len ki by simp
  qed
  have dist: "distinct (map fst (base_means ?stats))"
    using assms(3) by (simp add: base_means_def comp_def)
  have mem: "(c, base) \<in> set (base_means ?stats)"
    using assms(4,9) by (force simp: base_means_def)
  have look: "map_of (mp_category_breakdown (pr_monthly_projections resp ! ?i)) c
         = Some (round2 (mean_amount R k ?ch (c, base)))"
    unfolding bd_i
    using map_of_foldl_update[OF dist mem, of "\<lambda>p. round2 (mean_amount R k ?ch p)" "[]"] by simp
  have amt: "mean_amount R k ?ch (c, base) = base * (1 + change_pct / 100) * (1 + v)"
    using assms(10,11) by (simp add: mean_amount_def spec_projected_amount_def)
  have pc: "fst (project_category R k ?ch (c, cs)) = base * (1 + change_pct / 100) * (1 + v)"
    using project_category_amount[of R k ?ch "(c, cs)"] assms(9,10,11)
    by (simp add: spec_projected_amount_def)
  have vb: "- 0.05 \<le> v" "v \<le> 0.05"
    using variation_bounds[OF assms(7,8)] assms(11) by simp_all
  from r len month vb pc look amt show ?thesis by simp
qed

theorem projected_amount_formula_witness:
  "query_model demo_db 1 = Some demo_model
   \<and> query_debits demo_db 1 (5000000000000 - timedelta_days 30) \<noteq> []
   \<and> distinct (map fst (or_empty (bm_category_stats demo_model)))
   \<and> (''ENTERTAINMENT'', [(''count'', 12), (''mean'', 100), (''std_dev'', 40)])
        \<in> set (or_empty (bm_category_stats demo_model))
   \<and> 0 \<le> fst (rng_random demo_rng (rng_seed demo_rng 2))
   \<and> fst (rng_random demo_rng (rng_seed demo_rng 2)) < 1
   \<and> (\<exists>resp g'.
        project_future_spending demo_rng demo_db 1 3 30 (Some [(''ENTERTAINMENT'', - 10)]) None
          5000000000000 \<lparr>dt_year = 2026, dt_month = 11\<rparr> 0 = (Inr resp, g')
      \<and> length (pr_monthly_projections resp) = 3
      \<and> mp_month (pr_monthly_projections resp ! 1) = 2
      \<and> - 0.05 \<le> variation demo_rng 2 \<and> variation demo_rng 2 \<le> 0.05
      \<and> map_of (mp_category_breakdown (pr_monthly_projections resp ! 1)) ''ENTERTAINMENT''
          = Some (round2 (100 * (1 + (- 10) / 100) * (1 + variation demo_rng 2))))"
proof -
  let ?cs = "[(''count'', 12 :: real), (''mean'', 100), (''std_dev'', 40)]"
  have h3: "distinct (map fst (or_empty (bm_category_stats demo_model)))"
    by (simp add: demo_stats)
  have h4: "(''ENTERTAINMENT'', ?cs) \<in> set (or_empty (bm_category_stats demo_model))"
    by (simp add: demo_stats)
  have h5: "(1::int) \<le> 2" and h6: "(2::int) \<le> 3" by simp_all
  have h7: "0 \<le> fst (rng_random demo_rng (rng_seed demo_rng 2))"
    and h8: "fst (rng_random demo_rng (rng_seed demo_rng 2)) < 1"
    by (simp_all add: demo_rng_draw)
  have h9: "(100::real) = dict_get ?cs ''mean'' 0" by (simp add: dict_get_def)
  have h10: "(- 10 :: real) = dict_get (or_empty (Some [(''ENTERTAINMENT'', - 10)])) ''ENTERTAINMENT'' 0"
    by (simp add: dict_get_def or_empty_def)
  from projected_amount_formula[OF demo_query_model demo_debits_ne h3 h4 h5 h6 h7 h8 h9 h10 refl,
      of None "\<lparr>dt_year = 2026, dt_month = 11\<rparr>" 0]
  have "\<exists>resp g'.
        project_future_spending demo_rng demo_db 1 3 30 (Some [(''ENTERTAINMENT'', - 10)]) None
          5000000000000 \<lparr>dt_year = 2026, dt_month = 11\<rparr> 0 = (Inr resp, g')
      \<and> length (pr_monthly_projections resp) = 3
      \<and> mp_month (pr_monthly_projections resp ! 1) = 2
      \<and> - 0.05 \<le> variation demo_rng 2 \<and> variation demo_rng 2 \<le> 0.05
      \<and> map_of (mp_category_breakdown (pr_monthly_projections resp ! 1)) ''ENTERTAINMENT''
          = Some (round2 (100 * (1 + (- 10) / 100) * (1 + variation demo_rng 2)))"
    by (auto simp: numeral_2_eq_2)
  with demo_query_model demo_debits_ne h3 h4 h7 h8 show ?thesis by blast
qed

subsection \<open>Confidence\<close>

text \<open>
  Claim C7. When the projector returns, it returns one projection per month
  \<open>1, ..., projection_months\<close>; the confidence of month \<open>m\<close> is
  \<open>max(0.5, 1.0 - 0.03 * m)\<close>, so it is at least 0.5 and never increases with the
  month.
\<close>

theorem confidence_decay:
  assumes "query_model d uid = Some m"
    and "query_debits d uid (now - timedelta_days days) \<noteq> []"
    and "n \<noteq> 0"
  shows "\<exists>resp g'. project_future_spending R d uid n days changes sc now cur g = (Inr resp, g')
     \<and> length (pr_monthly_projections resp) = nat n
     \<and> (\<forall>i < nat n. mp_month (pr_monthly_projections resp ! i) = int i + 1
            \<and> mp_confidence (pr_monthly_projections resp ! i)
                = max 0.5 (1.0 - 0.03 * (real i + 1))
            \<and> 0.5 \<le> mp_confidence (pr_monthly_projections resp ! i))
     \<and> (\<forall>i j. i \<le> j \<and> j < nat n
            \<longrightarrow> mp_confidence (pr_monthly_projections resp ! j)
                  \<le> mp_confidence (pr_monthly_projections resp ! i))"
proof -
  let ?stats = "or_empty (bm_category_stats m)" and ?ch = "or_empty changes"
  let ?b = "sum_list (map tx_amount (query_debits d uid (now - timedelta_days days)))"
  from project_future_spending_returns[OF assms, of R changes sc cur g]
  obtain resp g' where r: "project_future_spending R d uid n days changes sc now cur g = (Inr resp, g')"
    and mps: "pr_monthly_projections resp
                = fst (project_months R ?stats ?ch ?b cur [1 .. n] ([], 0, g))"
    by blast
  let ?mps = "pr_monthly_projections resp"
  have months: "map mp_month ?mps = [1 .. n]"
    unfolding mps using project_months_map[of mp_month R ?stats ?ch ?b cur "\<lambda>k. k"]
    by (simp add: project_month_fields(1))
  have confs: "map mp_confidence ?mps = map (\<lambda>k. max 0.5 (1 - of_int k * 0.03)) [1 .. n]"
    unfolding mps
    using project_months_map[of mp_confidence R ?stats ?ch ?b cur "\<lambda>k. max 0.5 (1 - of_int k * 0.03)"]
    by (simp add: project_month_fields(2))
  have len: "length ?mps = nat n"
    using arg_cong[OF months, of length] by simp
  have month_i: "mp_month (?mps ! i) = int i + 1" if "i < nat n" for i
  proof -
    have "map mp_month ?mps ! i = [1 .. n] ! i" using months by simp
    then show ?thesis using that len by (simp add: upto_nth)
  qed
  have conf_i: "mp_confidence (?mps ! i) = max 0.5 (1.0 - 0.03 * (real i + 1))" if "i < nat n" for i
  proof -
    have "map mp_confidence ?mps ! i = map (\<lambda>k. max 0.5 (1 - of_int k * 0.03)) [1 .. n] ! i"
      using confs by simp
    then have "mp_confidence (?mps ! i) = max 0.5 (1 - of_int ([1 .. n] ! i) * 0.03)"
      using that len by simp
    then show ?thesis using that by (simp add: upto_nth algebra_simps)
  qed
  have pos: "0.5 \<le> mp_confidence (?mps ! i)" if "i < nat n" for i
    using conf_i[OF that] by simp
  have mono: "mp_confidence (?mps ! j) \<le> mp_confidence (?mps ! i)" if "i \<le> j" "j < nat n" for i j
  proof -
    have "i < nat n" using that by simp
    then show ?thesis using conf_i[of i] conf_i[OF that(2)] that(1) by (simp add: max_def)
  qed
  from r len month_i conf_i pos mono show ?thesis by blast
qed

theorem confidence_decay_witness:
  "query_model demo_db 1 = Some demo_model
   \<and> query_debits demo_db 1 (5000000000000 - timedelta_days 30) \<noteq> []
   \<and> (\<exists>resp g'.
        project_future_spending demo_rng demo_db 1 20 30 None None
          5000000000000 \<lparr>dt_year = 2026, dt_month = 11\<rparr> 0 = (Inr resp, g')
      \<and> length (pr_monthly_projections resp) = 20
      \<and> mp_confidence (pr_monthly_projections resp ! 0) = 0.97
      \<and> mp_confidence (pr_monthly_projections resp ! 9) = 0.7
      \<and> mp_confidence (pr_monthly_projections resp ! 19) = 0.5
      \<and> mp_confidence (pr_monthly_projections resp ! 19)
          \<le> mp_confidence (pr_monthly_projections resp ! 9))"
proof -
  have h3: "(20::int) \<noteq> 0" by simp
  from confidence_decay[OF demo_query_model demo_debits_ne h3,
      of demo_rng None None "\<lparr>dt_year = 2026, dt_month = 11\<rparr>" 0]
  obtain resp g' where r: "project_future_spending demo_rng demo_db 1 20 30 None None
          5000000000000 \<lparr>dt_year = 2026, dt_month = 11\<rparr> 0 = (Inr resp, g')"
    and len: "length (pr_monthly_projections resp) = nat 20"
    and conf: "\<forall>i < nat 20. mp_month (pr_monthly_projections resp ! i) = int i + 1
            \<and> mp_confidence (pr_monthly_projections resp ! i)
                = max 0.5 (1.0 - 0.03 * (real i + 1))
            \<and> 0.5 \<le> mp_confidence (pr_monthly_projections resp ! i)"
    and mono: "\<forall>i j. i \<le> j \<and> j < nat 20
            \<longrightarrow> mp_confidence (pr_monthly_projections resp ! j)
                  \<le> mp_confidence (pr_monthly_projections resp ! i)"
    by blast
  have c0: "mp_confidence (pr_monthly_projections resp ! 0) = 0.97"
    using conf[rule_format, of 0] by simp
  have c9: "mp_confidence (pr_monthly_projections resp ! 9) = 0.7"
    using conf[rule_format, of 9] by simp
  have c19: "mp_confidence (pr_monthly_projections resp ! 19) = 0.5"
    using conf[rule_format, of 19] by simp
  have m: "mp_confidence (pr_monthly_projections resp ! 19)
          \<le> mp_confidence (pr_monthly_projections resp ! 9)"
    using mono[rule_format, of 9 19] by simp
  from r len c0 c9 c19 m demo_query_model demo_debits_ne show ?thesis by auto
qed

section \<open>Category reliability\<close>

lemma reliability_value:
  assumes "map_of (or_empty (bm_category_stats m)) category = Some stats"
    and "- 1 < dict_get stats ''count'' 0"
  shows "get_category_reliability_score (Some m) category
     = Inr (0.7 * count_score (dict_get stats ''count'' 0)
            + 0.3 * consistency_score (dict_get stats ''mean'' 0) (dict_get stats ''std_dev'' 0))"
proof -
  have ne: "or_empty (bm_category_stats m) \<noteq> []" using assms(1) by auto
  have dg: "dict_get (or_empty (bm_category_stats m)) category [] = stats"
    using assms(1) by (simp add: dict_get_def)
  show ?thesis
    using assms ne
    by (simp add: get_category_reliability_score_def dict_in_def dg log1p_def Let_def
        count_score_def consistency_score_def add.commute)
qed

lemma count_score_mono:
  assumes "- 1 < a" and "a \<le> b"
  shows "count_score a \<le> count_score b"
proof -
  have "ln (1 + a) \<le> ln (1 + b)" using assms by simp
  moreover have "0 < ln (21::real)" by simp
  ultimately have "ln (1 + a) / ln 21 \<le> ln (1 + b) / ln 21"
    by (simp add: divide_right_mono)
  then show ?thesis unfolding count_score_def by (simp add: min_le_iff_disj)
qed

lemma count_score_saturated:
  assumes "20 \<le> a"
  shows "count_score a = 1"
proof -
  have "ln (21::real) \<le> ln (1 + a)" using assms by simp
  moreover have "0 < ln (21::real)" by simp
  ultimately have "1 \<le> ln (1 + a) / ln 21" by simp
  then show ?thesis unfolding count_score_def by simp
qed

text \<open>
  Claim C8. For two categories with the same mean and the same standard deviation, the
  one with the larger transaction count has the larger or equal reliability score; from
  count 20 on the score no longer changes, so the scores at counts 20 and 100 differ by
  less than 0.01.
\<close>

theorem reliability_monotone_saturating:
  assumes "map_of (or_empty (bm_category_stats m1)) c1 = Some s1"
    and "map_of (or_empty (bm_category_stats m2)) c2 = Some s2"
    and "dict_get s1 ''mean'' 0 = dict_get s2 ''mean'' 0"
    and "dict_get s1 ''std_dev'' 0 = dict_get s2 ''std_dev'' 0"
    and "- 1 < dict_get s1 ''count'' 0"
    and "dict_get s1 ''count'' 0 \<le> dict_get s2 ''count'' 0"
  shows "\<exists>r1 r2. get_category_reliability_score (Some m1) c1 = Inr r1
     \<and> get_category_reliability_score (Some m2) c2 = Inr r2
     \<and> r1 \<le> r2
     \<and> (20 \<le> dict_get s1 ''count'' 0 \<longrightarrow> r1 = r2)
     \<and> (dict_get s1 ''count'' 0 = 20 \<and> dict_get s2 ''count'' 0 = 100 \<longrightarrow> \<bar>r1 - r2\<bar> < 0.01)"
proof -
  let ?n1 = "dict_get s1 ''count'' 0" and ?n2 = "dict_get s2 ''count'' 0"
  let ?k = "consistency_score (dict_get s2 ''mean'' 0) (dict_get s2 ''std_dev'' 0)"
  have p2: "- 1 < ?n2" using assms(5,6) by simp
  have v1: "get_category_reliability_score (Some m1) c1 = Inr (0.7 * count_score ?n1 + 0.3 * ?k)"
    using reliability_value[OF assms(1,5)] assms(3,4) by simp
  have v2: "get_category_reliability_score (Some m2) c2 = Inr (0.7 * count_score ?n2 + 0.3 * ?k)"
    using reliability_value[OF assms(2) p2] by simp
  have mono: "0.7 * count_score ?n1 + 0.3 * ?k \<le> 0.7 * count_score ?n2 + 0.3 * ?k"
    using count_score_mono[OF assms(5,6)] by simp
  have sat: "0.7 * count_score ?n1 + 0.3 * ?k = 0.7 * count_score ?n2 + 0.3 * ?k" if "20 \<le> ?n1"
  proof -
    have "20 \<le> ?n2" using that assms(6) by simp
    then show ?thesis using count_score_saturated[OF that] count_score_saturated[of ?n2] by simp
  qed
  have close: "\<bar>(0.7 * count_score ?n1 + 0.3 * ?k) - (0.7 * count_score ?n2 + 0.3 * ?k)\<bar> < 0.01"
    if "?n1 = 20 \<and> ?n2 = 100"
    using sat that by simp
  from v1 v2 mono sat close show ?thesis by blast
qed

theorem reliability_monotone_saturating_witness:
  "map_of (or_empty (bm_category_stats saturation_model)) ''AT_SATURATION''
      = Some [(''count'', 20), (''mean'', 100), (''std_dev'', 0)]
   \<and> map_of (or_empty (bm_category_stats saturation_model)) ''BEYOND_SATURATION''
      = Some [(''count'', 100), (''mean'', 100), (''std_dev'', 0)]
   \<and> (\<exists>r1 r2. get_category_reliability_score (Some saturation_model) ''AT_SATURATION'' = Inr r1
        \<and> get_category_reliability_score (Some saturation_model) ''BEYOND_SATURATION'' = Inr r2
        \<and> r1 \<le> r2 \<and> r1 = r2 \<and> \<bar>r1 - r2\<bar> < 0.01)"
proof -
  let ?s1 = "[(''count'', 20 :: real), (''mean'', 100), (''std_dev'', 0)]"
  let ?s2 = "[(''count'', 100 :: real), (''mean'', 100), (''std_dev'', 0)]"
  have h1: "map_of (or_empty (bm_category_stats saturation_model)) ''AT_SATURATION'' = Some ?s1"
    by (simp add: saturation_stats)
  have h2: "map_of (or_empty (bm_category_stats saturation_model)) ''BEYOND_SATURATION'' = Some ?s2"
    by (simp add: saturation_stats)
  have h3: "dict_get ?s1 ''mean'' 0 = dict_get ?s2 ''mean'' 0"
    and h4: "dict_get ?s1 ''std_dev'' 0 = dict_get ?s2 ''std_dev'' 0"
    and h5: "- 1 < dict_get ?s1 ''count'' 0"
    and h6: "dict_get ?s1 ''count'' 0 \<le> dict_get ?s2 ''count'' 0"
    by (simp_all add: dict_get_def)
  have c1: "dict_get ?s1 ''count'' 0 = 20" and c2: "dict_get ?s2 ''count'' 0 = 100"
    by (simp_all add: dict_get_def)
  from reliability_monotone_saturating[OF h1 h2 h3 h4 h5 h6] c1 c2
  have "\<exists>r1 r2. get_category_reliability_score (Some saturation_model) ''AT_SATURATION'' = Inr r1
        \<and> get_category_reliability_score (Some saturation_model) ''BEYOND_SATURATION'' = Inr r2
        \<and> r1 \<le> r2 \<and> r1 = r2 \<and> \<bar>r1 - r2\<bar> < 0.01"
    by auto
  with h1 h2 show ?thesis by blast
qed

section \<open>Guarded denominators\<close>

text \<open>
  Claim C9. A mean that is not positive is never divided by. The reliability score of a
  category with such a mean (and a count that is not negative) is
  \<open>0.7 * count_score + 0.3 * 0.5\<close>, the consistency being the default 0.5. In a
  validated request, a category with such a current mean that goes through the division
  of line 108 (every category but a positive delta to SAVINGS or OTHER) is reported
  with change percent 0.
\<close>

theorem zero_denominators_guarded:
  "(map_of (or_empty (bm_category_stats m0)) category = Some stats0
      \<and> 0 \<le> dict_get stats0 ''count'' 0 \<and> dict_get stats0 ''mean'' 0 \<le> 0
    \<longrightarrow> get_category_reliability_score (Some m0) category
          = Inr (0.7 * min 1 (ln (1 + dict_get stats0 ''count'' 0) / ln 21) + 0.3 * 0.5))
   \<and> (query_model d uid = Some m
      \<and> query_debits d uid (now - timedelta_days days) \<noteq> []
      \<and> validate_sources E (or_empty (bm_category_stats m)) (sources_of req) = None
      \<and> validate_targets E (targets_of req) = None
      \<and> validate_exist (or_empty (bm_category_stats m)) (map fst req) = None
      \<and> i < length req \<and> req ! i = (c, change)
      \<and> \<not> (c \<in> set [''SAVINGS'', ''OTHER''] \<and> 0 < change)
      \<and> dict_get (dict_get (or_empty (bm_category_stats m)) c []) ''mean'' 0 \<le> 0
    \<longrightarrow> (\<exists>resp. simulate_reallocation E d uid req days now = Inr resp
          \<and> cr_category (rr_reallocations resp ! i) = c
          \<and> cr_change_percent (rr_reallocations resp ! i) = 0))"
proof (intro conjI impI)
  assume a: "map_of (or_empty (bm_category_stats m0)) category = Some stats0
      \<and> 0 \<le> dict_get stats0 ''count'' 0 \<and> dict_get stats0 ''mean'' 0 \<le> 0"
  then have "- 1 < dict_get stats0 ''count'' 0" by simp
  from reliability_value[OF _ this, of m0 category] a
  show "get_category_reliability_score (Some m0) category
          = Inr (0.7 * min 1 (ln (1 + dict_get stats0 ''count'' 0) / ln 21) + 0.3 * 0.5)"
    by (simp add: count_score_def consistency_score_def)
next
  let ?stats = "or_empty (bm_category_stats m)" and ?el = "or_empty (bm_elasticity m)"
  assume b: "query_model d uid = Some m
      \<and> query_debits d uid (now - timedelta_days days) \<noteq> []
      \<and> validate_sources E (or_empty (bm_category_stats m)) (sources_of req) = None
      \<and> validate_targets E (targets_of req) = None
      \<and> validate_exist (or_empty (bm_category_stats m)) (map fst req) = None
      \<and> i < length req \<and> req ! i = (c, change)
      \<and> \<not> (c \<in> set [''SAVINGS'', ''OTHER''] \<and> 0 < change)
      \<and> dict_get (dict_get (or_empty (bm_category_stats m)) c []) ''mean'' 0 \<le> 0"
  then have ne: "req \<noteq> []" by auto
  from b simulate_reallocation_returns[of d uid m now days E req, OF _ _ _ _ _ ne]
  obtain resp where r: "simulate_reallocation E d uid req days now = Inr resp"
    and ds: "rr_reallocations resp = map (\<lambda>x. fst (analyse E ?stats ?el x)) req"
    by blast
  have d_i: "rr_reallocations resp ! i = fst (analyse E ?stats ?el (c, change))"
    using ds b by simp
  have z: "cr_change_percent (rr_reallocations resp ! i) = 0"
    unfolding d_i using analyse_zero_mean[of c change ?stats E ?el] b by blast
  have cat: "cr_category (rr_reallocations resp ! i) = c"
    unfolding d_i by (simp add: analyse_def Let_def split: prod.splits)
  from r z cat
  show "\<exists>resp. simulate_reallocation E d uid req days now = Inr resp
          \<and> cr_category (rr_reallocations resp ! i) = c
          \<and> cr_change_percent (rr_reallocations resp ! i) = 0" by blast
qed

theorem zero_denominators_guarded_witness:
  "map_of (or_empty (bm_category_stats demo_model)) ''GIFTS''
      = Some [(''count'', 2), (''mean'', 0), (''std_dev'', 0)]
   \<and> get_category_reliability_score (Some demo_model) ''GIFTS''
      = Inr (0.7 * min 1 (ln 3 / ln 21) + 0.3 * 0.5)
   \<and> query_model demo_db 1 = Some demo_model
   \<and> query_debits demo_db 1 (5000000000000 - timedelta_days 30) \<noteq> []
   \<and> validate_sources demo_essential (or_empty (bm_category_stats demo_model))
        (sources_of [(''GIFTS'', - 5), (''SAVINGS'', 5)]) = None
   \<and> validate_targets demo_essential (targets_of [(''GIFTS'', - 5), (''SAVINGS'', 5)]) = None
   \<and> validate_exist (or_empty (bm_category_stats demo_model))
        (map fst [(''GIFTS'', - 5 :: real), (''SAVINGS'', 5)]) = None
   \<and> (\<exists>resp. simulate_reallocation demo_essential demo_db 1 [(''GIFTS'', - 5), (''SAVINGS'', 5)]
                 30 5000000000000 = Inr resp
         \<and> cr_category (rr_reallocations resp ! 0) = ''GIFTS''
         \<and> cr_change_percent (rr_reallocations resp ! 0) = 0)"
proof -
  let ?st = "[(''count'', 2 :: real), (''mean'', 0), (''std_dev'', 0)]"
  let ?req = "[(''GIFTS'', - 5 :: real), (''SAVINGS'', 5)]"
  have a1: "map_of (or_empty (bm_category_stats demo_model)) ''GIFTS'' = Some ?st"
    by (simp add: demo_stats)
  have a2: "0 \<le> dict_get ?st ''count'' 0" and a3: "dict_get ?st ''mean'' 0 \<le> 0"
    and a4: "dict_get ?st ''count'' 0 = 2"
    by (simp_all add: dict_get_def)
  have h3: "validate_sources demo_essential (or_empty (bm_category_stats demo_model))
        (sources_of ?req) = None"
    by (simp add: demo_stats sources_of_def demo_essential_def dict_in_def)
  have h4: "validate_targets demo_essential (targets_of ?req) = None"
    by (simp add: targets_of_def demo_essential_def BENEFICIAL_def)
  have h5: "validate_exist (or_empty (bm_category_stats demo_model)) (map fst ?req) = None"
    by (simp add: demo_stats dict_in_def BENEFICIAL_def)
  have h6: "0 < length ?req" and h7: "?req ! 0 = (''GIFTS'', - 5)" by simp_all
  have h8: "\<not> (''GIFTS'' \<in> set [''SAVINGS'', ''OTHER''] \<and> (0::real) < - 5)" by simp
  have h9: "dict_get (dict_get (or_empty (bm_category_stats demo_model)) ''GIFTS'' []) ''mean'' 0 \<le> 0"
    by (simp add: demo_stats dict_get_def)
  note t = zero_denominators_guarded[of demo_model "''GIFTS''" ?st demo_db 1 demo_model
      5000000000000 30 demo_essential ?req 0 "''GIFTS''" "- 5"]
  from t a1 a2 a3 a4
  have r1: "get_category_reliability_score (Some demo_model) ''GIFTS''
      = Inr (0.7 * min 1 (ln 3 / ln 21) + 0.3 * 0.5)"
    by simp
  from t demo_query_model demo_debits_ne h3 h4 h5 h6 h7 h8 h9
  have r2: "\<exists>resp. simulate_reallocation demo_essential demo_db 1 ?req 30 5000000000000 = Inr resp
         \<and> cr_category (rr_reallocations resp ! 0) = ''GIFTS''
         \<and> cr_change_percent (rr_reallocations resp ! 0) = 0"
    by blast
  from a1 r1 demo_query_model demo_debits_ne h3 h4 h5 r2 show ?thesis by blast
qed

end
